theory Spec2Isabelle
  imports
    Complex_Main
    "HOL-Library.AList"
    "HOL-Library.Char_ord"
    "HOL-Library.List_Lexorder"
    "HOL-Library.Log_Nat"
    "HOL-Library.Product_Lexorder"
begin

section \<open>Conventions of the embedding\<close>

text \<open>
  The TypeScript sources are embedded as pure functions.

  \<^item> A JavaScript string is a \<^typ>\<open>string\<close> whose characters are the UTF-16 code units of
    the string, restricted to the code units below 256 (ASCII and Latin-1). On that range
    the order of \<^typ>\<open>char\<close> is the order of code units, which is what \<open>Array.sort\<close>
    and the comparison of strings use.
  \<^item> A \<open>Date\<close> is the number of milliseconds since the epoch (an \<^typ>\<open>int\<close>); an ISO
    string written by \<open>toISOString\<close> and read back by \<open>new Date\<close> is the same number.
  \<^item> A \<open>Map\<close> and a plain object used as a dictionary are association lists in
    insertion order: \<open>get\<close> is \<^const>\<open>map_of\<close>, \<open>set\<close> is \<^const>\<open>AList.update\<close> (an
    existing key keeps its place, a new key goes last), \<open>delete\<close> is \<^const>\<open>AList.delete\<close>.
  \<^item> A \<open>throw\<close> is the left injection of a sum; what the clock, the random source, the
    HMAC primitive, the file system and the remote platform answer is passed in as a
    parameter.
  \<^item> An \<open>await\<close> gives the processor to the other calls in flight: the platform's answer
    to a request comes back together with the world and the stores as they are when the
    handler resumes. Code between two \<open>await\<close>s runs without interruption.
  \<^item> A JavaScript \<open>number\<close> that holds a price is an IEEE 754 binary64 value: the finite
    values, the two infinities and NaN, each operation rounded to nearest, ties to even.
    The two zeros are one value; the operations modelled do not tell them apart except by
    dividing by zero, which the source guards.
\<close>

subsection \<open>Values of untyped parameters\<close>

text \<open>\<open>Record<string, unknown>\<close>: a missing property reads as \<open>undefined\<close>. \<open>JNum\<close>
  carries an integer (a fraction passes and fails the tests of the sources as a non-zero
  integer does), \<open>JObj\<close> stands for every object and array.\<close>

datatype jsval =
    JUndefined
  | JNull
  | JBool bool
  | JNum int
  | JNaN
  | JStr string
  | JObj

type_synonym params = "string \<Rightarrow> jsval"

fun truthy :: "jsval \<Rightarrow> bool" where
  "truthy JUndefined = False"
| "truthy JNull = False"
| "truthy (JBool b) = b"
| "truthy (JNum n) = (n \<noteq> 0)"
| "truthy JNaN = False"
| "truthy (JStr s) = (s \<noteq> [])"
| "truthy JObj = True"

fun typeof :: "jsval \<Rightarrow> string" where
  "typeof JUndefined = ''undefined''"
| "typeof JNull = ''object''"
| "typeof (JBool b) = ''boolean''"
| "typeof (JNum n) = ''number''"
| "typeof JNaN = ''number''"
| "typeof (JStr s) = ''string''"
| "typeof JObj = ''object''"

subsection \<open>String helpers of the runtime\<close>

text \<open>\<open>Array.prototype.join\<close>.\<close>

fun join :: "string \<Rightarrow> string list \<Rightarrow> string" where
  "join sep [] = []"
| "join sep [x] = x"
| "join sep (x # y # ys) = x @ sep @ join sep (y # ys)"

text \<open>White space and line terminators of ECMAScript among the code units below 256:
  TAB, LF, VT, FF, CR, SP and NBSP.\<close>

definition isWhiteSpace :: "char \<Rightarrow> bool" where
  "isWhiteSpace c = ((of_char c :: nat) \<in> {9, 10, 11, 12, 13, 32, 160})"

text \<open>\<open>String.prototype.trim\<close>.\<close>

definition trim :: "string \<Rightarrow> string" where
  "trim s = rev (dropWhile isWhiteSpace (rev (dropWhile isWhiteSpace s)))"

text \<open>The decimal digit of a number below ten.\<close>

definition digitChar :: "nat \<Rightarrow> char" where
  "digitChar d = ''0123456789'' ! d"

text \<open>\<open>Number.prototype.toString\<close> on a non-negative integer (decimal).\<close>

fun natToString :: "nat \<Rightarrow> string" where
  "natToString n = (if n < 10 then [digitChar n] else natToString (n div 10) @ [digitChar (n mod 10)])"

declare natToString.simps [simp del]

definition intToString :: "int \<Rightarrow> string" where
  "intToString i = (if i < 0 then CHR ''-'' # natToString (nat (- i)) else natToString (nat i))"

section \<open>Configuration (config/index.ts)\<close>

record McpConfig =
  maxSkusPerBulkCommit :: int
  maxCouponQtyPerGeneration :: int
  priceChangeThresholdPercent :: int
  maxDiscountPercent :: int
  tier2ConfirmationRequired :: bool
  planExpiryMinutes :: int

definition defaultConfig :: McpConfig where
  "defaultConfig = \<lparr>
     maxSkusPerBulkCommit = 500,
     maxCouponQtyPerGeneration = 1000,
     priceChangeThresholdPercent = 50,
     maxDiscountPercent = 50,
     tier2ConfirmationRequired = True,
     planExpiryMinutes = 30 \<rparr>"

section \<open>Protocol types (protocol/types.ts)\<close>

datatype RiskTier = Safe | Risk | Critical

text \<open>The numeric value of the enum, which \<open>>=\<close> compares.\<close>

fun tierValue :: "RiskTier \<Rightarrow> nat" where
  "tierValue Safe = 1"
| "tierValue Risk = 2"
| "tierValue Critical = 3"

definition CONFIRMATION_REQUIRED :: string where
  "CONFIRMATION_REQUIRED = ''CONFIRMATION_REQUIRED''"

text \<open>What a handler can throw: a \<open>ZodError\<close> of the schema, a \<open>GuardrailError\<close> with
  its code, message and optional details, or a plain \<open>Error\<close> with its message.\<close>

datatype failure =
    ZodError
  | GuardrailError string string "(string \<times> int) list option"
  | Error string

record ('p, 'd) BulkPlan =
  plan_id :: string
  action :: string
  created_at :: int
  expires_at :: int
  payload :: 'p
  affected_count :: nat
  sample_diffs :: "'d list option"
  warnings :: "string list option"

record IdempotencyEntry =
  entry_key :: string
  entry_action :: string
  entry_created_at :: int
  result_summary :: string

section \<open>PlanStore (session/planStore.ts)\<close>

type_synonym ('p, 'd) plans = "(string \<times> ('p, 'd) BulkPlan) list"

text \<open>\<open>create\<close>: \<open>uuid\<close> is what \<open>uuidv4()\<close> returns and \<open>now\<close> what \<open>new Date()\<close> reads.\<close>

definition create ::
  "string \<Rightarrow> int \<Rightarrow> string \<Rightarrow> 'p \<Rightarrow> nat \<Rightarrow> int \<Rightarrow> 'd list option \<Rightarrow> string list option
     \<Rightarrow> ('p, 'd) plans \<Rightarrow> ('p, 'd) BulkPlan \<times> ('p, 'd) plans" where
  "create uuid now act pl affectedCount expiryMinutes sampleDiffs warns ps =
     (let plan = \<lparr> plan_id = uuid, action = act, created_at = now,
                    expires_at = now + expiryMinutes * 60000, payload = pl,
                    affected_count = affectedCount, sample_diffs = sampleDiffs,
                    warnings = warns \<rparr>
      in (plan, AList.update uuid plan ps))"

text \<open>\<open>get\<close>: an expired plan is deleted and reported as \<open>undefined\<close>.\<close>

definition get ::
  "int \<Rightarrow> string \<Rightarrow> ('p, 'd) plans \<Rightarrow> ('p, 'd) BulkPlan option \<times> ('p, 'd) plans" where
  "get now planId ps =
     (case map_of ps planId of
        None \<Rightarrow> (None, ps)
      | Some plan \<Rightarrow>
          if expires_at plan < now then (None, AList.delete planId ps)
          else (Some plan, ps))"

definition consume ::
  "int \<Rightarrow> string \<Rightarrow> ('p, 'd) plans \<Rightarrow> ('p, 'd) BulkPlan option \<times> ('p, 'd) plans" where
  "consume now planId ps =
     (case get now planId ps of
        (Some plan, ps') \<Rightarrow> (Some plan, AList.delete planId ps')
      | (None, ps') \<Rightarrow> (None, ps'))"

definition cleanup :: "int \<Rightarrow> ('p, 'd) plans \<Rightarrow> nat \<times> ('p, 'd) plans" where
  "cleanup now ps =
     (length (filter (\<lambda>(i, plan). expires_at plan < now) ps),
      filter (\<lambda>(i, plan). \<not> expires_at plan < now) ps)"

text \<open>The calls a client of the store can make, to speak about what happens between two
  calls. \<open>OpCreate\<close> carries the id that \<open>uuidv4()\<close> produced.\<close>

datatype ('p, 'd) store_op =
    OpCreate string string 'p nat int "'d list option" "string list option"
  | OpGet string
  | OpConsume string
  | OpCleanup

text \<open>One call at clock reading \<open>now\<close>, keeping only the store.\<close>

fun apply_store_op :: "int \<times> ('p, 'd) store_op \<Rightarrow> ('p, 'd) plans \<Rightarrow> ('p, 'd) plans" where
  "apply_store_op (now, OpCreate uuid act pl n mins sd ws) ps = snd (create uuid now act pl n mins sd ws ps)"
| "apply_store_op (now, OpGet i) ps = snd (get now i ps)"
| "apply_store_op (now, OpConsume i) ps = snd (consume now i ps)"
| "apply_store_op (now, OpCleanup) ps = snd (cleanup now ps)"

fun creates :: "string \<Rightarrow> int \<times> ('p, 'd) store_op \<Rightarrow> bool" where
  "creates i (now, OpCreate uuid act pl n mins sd ws) = (uuid = i)"
| "creates i (now, other) = False"

section \<open>IdempotencyLedger (session/idempotencyLedger.ts)\<close>

text \<open>The entries in memory and the snapshot last written to the file.\<close>

record ledger =
  entries :: "(string \<times> IdempotencyEntry) list"
  persisted :: "IdempotencyEntry list"

definition ledger_has :: "string \<Rightarrow> ledger \<Rightarrow> bool" where
  "ledger_has k l = (map_of (entries l) k \<noteq> None)"

definition ledger_get :: "string \<Rightarrow> ledger \<Rightarrow> IdempotencyEntry option" where
  "ledger_get k l = map_of (entries l) k"

text \<open>\<open>persist\<close> writes the values of the map to the file. \<open>writeFailure\<close> is the message
  of what the file system throws, if it throws; then the snapshot is not replaced and the
  exception leaves \<open>persist\<close>.\<close>

definition persist :: "string option \<Rightarrow> ledger \<Rightarrow> (failure + unit) \<times> ledger" where
  "persist writeFailure l =
     (case writeFailure of
        None \<Rightarrow> (Inr (), l \<lparr> persisted := map snd (entries l) \<rparr>)
      | Some msg \<Rightarrow> (Inl (Error msg), l))"

text \<open>\<open>record\<close>: \<open>now\<close> is what \<open>new Date()\<close> reads. The entry is set in the map before
  the file is written.\<close>

definition record_entry ::
  "int \<Rightarrow> string option \<Rightarrow> string \<Rightarrow> string \<Rightarrow> string \<Rightarrow> ledger \<Rightarrow> (failure + unit) \<times> ledger" where
  "record_entry now writeFailure k act resultSummary l =
     (let entry = \<lparr> entry_key = k, entry_action = act, entry_created_at = now,
                     result_summary = resultSummary \<rparr>
      in persist writeFailure (l \<lparr> entries := AList.update k entry (entries l) \<rparr>))"




section \<open>Request signing (client/magentoRest.ts)\<close>

subsection \<open>Percent-encoding\<close>

text \<open>A hexadecimal digit in lower case, as \<open>toString(16)\<close> and \<open>toString('hex')\<close> write it.\<close>

definition hexDigit :: "nat \<Rightarrow> char" where
  "hexDigit d = ''0123456789abcdef'' ! d"

text \<open>\<open>Number.prototype.toString(16)\<close> on a code unit below 256: no leading zero.\<close>

definition toString16 :: "nat \<Rightarrow> string" where
  "toString16 n = (if n < 16 then [hexDigit n] else [hexDigit (n div 16), hexDigit (n mod 16)])"

text \<open>\<open>toUpperCase\<close>, which the source applies to the output of \<open>toString16\<close>: the
  letters a to z go to A to Z, digits stay.\<close>

definition toUpperCase :: "string \<Rightarrow> string" where
  "toUpperCase s =
     map (\<lambda>c. case map_of (zip ''abcdefghijklmnopqrstuvwxyz'' ''ABCDEFGHIJKLMNOPQRSTUVWXYZ'') c of
                 Some u \<Rightarrow> u
               | None \<Rightarrow> c) s"

text \<open>The characters \<open>encodeURIComponent\<close> leaves alone: letters, digits and
  \<open>- _ . ! ~ * ' ( )\<close>.\<close>

definition uriUnescaped :: "char \<Rightarrow> bool" where
  "uriUnescaped c =
     (c \<in> set ''ABCDEFGHIJKLMNOPQRSTUVWXYZabcdefghijklmnopqrstuvwxyz0123456789-_.!~*()''
      \<or> c = CHR 0x27)"

text \<open>The UTF-8 bytes of a code unit below 256.\<close>

definition utf8Bytes :: "char \<Rightarrow> nat list" where
  "utf8Bytes c =
     (let n = of_char c in if n < 128 then [n] else [192 + n div 64, 128 + n mod 64])"

text \<open>One escaped byte: \<open>%\<close> and two hexadecimal digits in upper case.\<close>

definition pctByte :: "nat \<Rightarrow> string" where
  "pctByte b = CHR ''%'' # toUpperCase [hexDigit (b div 16), hexDigit (b mod 16)]"

definition encodeURIComponent :: "string \<Rightarrow> string" where
  "encodeURIComponent s =
     concat (map (\<lambda>c. if uriUnescaped c then [c] else concat (map pctByte (utf8Bytes c))) s)"

text \<open>\<open>rfc3986Encode\<close>: \<open>encodeURIComponent(str).replace(/[!'()*]/g, ...)\<close>.\<close>

definition rfc3986Encode :: "string \<Rightarrow> string" where
  "rfc3986Encode str =
     concat (map (\<lambda>c. if c \<in> set ''!()*'' \<or> c = CHR 0x27
                        then CHR ''%'' # toUpperCase (toString16 (of_char c))
                        else [c])
                 (encodeURIComponent str))"

subsection \<open>The OAuth header\<close>

record OAuthCredentials =
  consumerKey :: string
  consumerSecret :: string
  token :: string
  tokenSecret :: string

text \<open>\<open>buildOAuthHeader\<close> is private and is called with one of four literal methods.\<close>

datatype http_method = GET | POST | PUT | DELETE

fun methodString :: "http_method \<Rightarrow> string" where
  "methodString GET = ''GET''"
| "methodString POST = ''POST''"
| "methodString PUT = ''PUT''"
| "methodString DELETE = ''DELETE''"

text \<open>\<open>crypto.randomBytes(32).toString('hex')\<close>, from the bytes drawn.\<close>

definition nonceOf :: "nat list \<Rightarrow> string" where
  "nonceOf bytes = concat (map (\<lambda>b. [hexDigit (b div 16), hexDigit (b mod 16)]) bytes)"

text \<open>\<open>Math.floor(Date.now() / 1000).toString()\<close>, from the clock reading.\<close>

definition timestampOf :: "int \<Rightarrow> string" where
  "timestampOf nowMs = intToString (nowMs div 1000)"

definition oauthParams :: "OAuthCredentials \<Rightarrow> string \<Rightarrow> string \<Rightarrow> (string \<times> string) list" where
  "oauthParams oauth nonce timestamp =
     [(''oauth_consumer_key'', consumerKey oauth),
      (''oauth_nonce'', nonce),
      (''oauth_signature_method'', ''HMAC-SHA256''),
      (''oauth_timestamp'', timestamp),
      (''oauth_token'', token oauth),
      (''oauth_version'', ''1.0'')]"

text \<open>The merge: every query parameter is assigned into a copy of the OAuth parameters.
  An assignment to the key \<open>__proto__\<close> of a plain object adds no property.\<close>

definition allParams ::
  "OAuthCredentials \<Rightarrow> string \<Rightarrow> string \<Rightarrow> (string \<times> string) list option
     \<Rightarrow> (string \<times> string) list" where
  "allParams oauth nonce timestamp queryParams =
     (case queryParams of
        None \<Rightarrow> oauthParams oauth nonce timestamp
      | Some q \<Rightarrow>
          fold (\<lambda>(k, v) m. if k = ''__proto__'' then m else AList.update k v m) q
            (oauthParams oauth nonce timestamp))"

text \<open>\<open>Object.keys(allParams).sort().map(k => enc(k) + '=' + enc(allParams[k])).join('&')\<close>.
  The default \<open>sort\<close> orders the keys, as they are, by code units.\<close>

definition paramString :: "(string \<times> string) list \<Rightarrow> string" where
  "paramString ps =
     join ''&''
       (map (\<lambda>k. rfc3986Encode k @ ''='' @
                  rfc3986Encode (case map_of ps k of Some v \<Rightarrow> v | None \<Rightarrow> ''undefined''))
            (sort (map fst ps)))"

definition signatureBaseString :: "http_method \<Rightarrow> string \<Rightarrow> string \<Rightarrow> string" where
  "signatureBaseString m baseUrl pstr =
     methodString m @ ''&'' @ rfc3986Encode baseUrl @ ''&'' @ rfc3986Encode pstr"

definition signingKey :: "OAuthCredentials \<Rightarrow> string" where
  "signingKey oauth = rfc3986Encode (consumerSecret oauth) @ ''&'' @ rfc3986Encode (tokenSecret oauth)"

text \<open>The base string the signature is computed over, for a given nonce and timestamp.\<close>

definition baseStringFor ::
  "OAuthCredentials \<Rightarrow> string \<Rightarrow> string \<Rightarrow> http_method \<Rightarrow> string
     \<Rightarrow> (string \<times> string) list option \<Rightarrow> string" where
  "baseStringFor oauth nonce timestamp m baseUrl queryParams =
     signatureBaseString m baseUrl (paramString (allParams oauth nonce timestamp queryParams))"

text \<open>\<open>authParams\<close>: the OAuth parameters and the signature. \<open>hmac key msg\<close> stands for
  \<open>crypto.createHmac('sha256', key).update(msg).digest('base64')\<close>.\<close>

definition authParams ::
  "(string \<Rightarrow> string \<Rightarrow> string) \<Rightarrow> OAuthCredentials \<Rightarrow> nat list \<Rightarrow> int \<Rightarrow> http_method
     \<Rightarrow> string \<Rightarrow> (string \<times> string) list option \<Rightarrow> (string \<times> string) list" where
  "authParams hmac oauth randomBytes nowMs m baseUrl queryParams =
     (let nonce = nonceOf randomBytes;
          timestamp = timestampOf nowMs;
          signature = hmac (signingKey oauth) (baseStringFor oauth nonce timestamp m baseUrl queryParams)
      in oauthParams oauth nonce timestamp @ [(''oauth_signature'', signature)])"

definition headerField :: "string \<times> string \<Rightarrow> string" where
  "headerField kv = fst kv @ ''='' @ [CHR 0x22] @ rfc3986Encode (snd kv) @ [CHR 0x22]"

definition buildOAuthHeader ::
  "(string \<Rightarrow> string \<Rightarrow> string) \<Rightarrow> OAuthCredentials \<Rightarrow> nat list \<Rightarrow> int \<Rightarrow> http_method
     \<Rightarrow> string \<Rightarrow> (string \<times> string) list option \<Rightarrow> string" where
  "buildOAuthHeader hmac oauth randomBytes nowMs m baseUrl queryParams =
     ''OAuth '' @ join '', '' (map headerField (authParams hmac oauth randomBytes nowMs m baseUrl queryParams))"

text \<open>The parameter string as the specification words it: every key and value encoded,
  the encoded pairs sorted by key and then by value, joined as \<open>key=value\<close> with \<open>&\<close>.\<close>

definition paramString_spec :: "(string \<times> string) list \<Rightarrow> string" where
  "paramString_spec ps =
     join ''&''
       (map (\<lambda>(k, v). k @ ''='' @ v)
            (sort (map (\<lambda>(k, v). (rfc3986Encode k, rfc3986Encode v)) ps)))"

text \<open>The signature base string as the specification words it, for a verifier that reads
  the nonce and the timestamp off the header: the protocol parameters and all query
  parameters, encoded, sorted and joined as above; then the method in upper case, the
  encoded base address and the encoded parameter string, joined with \<open>&\<close>.\<close>

definition baseString_spec ::
  "OAuthCredentials \<Rightarrow> string \<Rightarrow> string \<Rightarrow> http_method \<Rightarrow> string
     \<Rightarrow> (string \<times> string) list \<Rightarrow> string" where
  "baseString_spec oauth nonce timestamp m baseUrl query =
     methodString m @ ''&'' @ rfc3986Encode baseUrl @ ''&'' @
     rfc3986Encode (paramString_spec (oauthParams oauth nonce timestamp @ query))"

section \<open>Guardrails (validation/guardrails.ts)\<close>

definition confirmMessage :: "RiskTier \<Rightarrow> string" where
  "confirmMessage t =
     ''This action requires confirm: true and a reason string (Risk Tier '' @
     natToString (tierValue t) @ '').''"

definition reasonMessage :: string where
  "reasonMessage = ''A non-empty reason string is required for Tier 2+ operations.''"

definition requireConfirmation :: "McpConfig \<Rightarrow> RiskTier \<Rightarrow> params \<Rightarrow> failure + unit" where
  "requireConfirmation config riskTier ps =
     (if tierValue riskTier \<ge> tierValue Risk \<and> tier2ConfirmationRequired config then
        if ps ''confirm'' \<noteq> JBool True then
          Inl (GuardrailError CONFIRMATION_REQUIRED (confirmMessage riskTier) None)
        else if \<not> truthy (ps ''reason'') \<or> typeof (ps ''reason'') \<noteq> ''string''
                \<or> length (trim (case ps ''reason'' of JStr r \<Rightarrow> r | _ \<Rightarrow> [])) = 0 then
          Inl (GuardrailError CONFIRMATION_REQUIRED reasonMessage None)
        else Inr ()
      else Inr ())"

subsection \<open>Numbers\<close>














subsection \<open>The price check\<close>




section \<open>The bulk commit handler (actions/catalog.ts)\<close>

subsection \<open>The schema of a commit call (validation/schemas.ts)\<close>

record commit_params =
  v_plan_id :: string
  v_reason :: string
  v_idempotency_key :: "string option"

text \<open>\<open>CommitPlanSchema.parse\<close>: \<open>plan_id\<close> a string in UUID form, \<open>confirm\<close> the literal
  \<open>true\<close>, \<open>reason\<close> a string of length at least one, \<open>idempotency_key\<close> a string or
  absent. \<open>isUuid\<close> is the UUID test of the schema library.\<close>

definition CommitPlanSchema_parse :: "(string \<Rightarrow> bool) \<Rightarrow> params \<Rightarrow> failure + commit_params" where
  "CommitPlanSchema_parse isUuid ps =
     (case ps ''plan_id'' of
        JStr pid \<Rightarrow>
          if \<not> isUuid pid then Inl ZodError
          else if ps ''confirm'' \<noteq> JBool True then Inl ZodError
          else (case ps ''reason'' of
                  JStr r \<Rightarrow>
                    if length r < 1 then Inl ZodError
                    else (case ps ''idempotency_key'' of
                            JUndefined \<Rightarrow>
                              Inr \<lparr> v_plan_id = pid, v_reason = r, v_idempotency_key = None \<rparr>
                          | JStr k \<Rightarrow>
                              Inr \<lparr> v_plan_id = pid, v_reason = r, v_idempotency_key = Some k \<rparr>
                          | _ \<Rightarrow> Inl ZodError)
                | _ \<Rightarrow> Inl ZodError)
      | _ \<Rightarrow> Inl ZodError)"

subsection \<open>Payload, requests and responses\<close>

text \<open>The payload of a plan is \<open>unknown\<close> to the store, which all actions share; the
  handler casts it and reads three properties. Each may be missing: the plans that the
  CMS, SEO and promotion actions prepare have no \<open>skus\<close>, those of the pricing action have
  no \<open>updates\<close>.\<close>

record plan_payload =
  skus :: "string list option"
  updates :: "(string \<times> jsval) list option"
  scope :: "(string \<times> string) list option"

text \<open>One \<open>client.put\<close>: the endpoint, the \<open>product\<close> object of the body and the store code.\<close>

record put_request =
  endpoint :: string
  product :: "(string \<times> jsval) list"
  storeCode :: "string option"

text \<open>\<open>{ sku, ...payload.updates }\<close>; spreading \<open>undefined\<close> adds nothing.\<close>

definition productBody :: "string \<Rightarrow> (string \<times> jsval) list option \<Rightarrow> (string \<times> jsval) list" where
  "productBody sku upd =
     fold (\<lambda>(k, v) m. AList.update k v m) (case upd of None \<Rightarrow> [] | Some u \<Rightarrow> u)
       [(''sku'', JStr sku)]"

definition putRequest :: "plan_payload \<Rightarrow> string \<Rightarrow> put_request" where
  "putRequest pl sku =
     \<lparr> endpoint = ''/V1/products/'' @ encodeURIComponent sku,
       product = productBody sku (updates pl),
       storeCode = (case scope pl of None \<Rightarrow> None | Some sc \<Rightarrow> map_of sc ''store_view_code'') \<rparr>"

record bulk_result =
  message :: string
  success_count :: nat
  error_count :: nat
  errors :: "(string \<times> string) list option"

text \<open>What the handler returns: the replay of a recorded summary (\<open>message\<close> and
  \<open>previous_result\<close>) or the result of the commit.\<close>

datatype response =
    IdempotencyMatch string string
  | BulkResult bulk_result

record ('p, 'd) stores =
  planStore :: "('p, 'd) plans"
  idempotencyLedger :: ledger

subsection \<open>The loop over the records\<close>

text \<open>\<open>put s req\<close> is one awaited request against the remote platform, sent when the
  world and the stores are \<open>s\<close>: it answers \<open>Inr ()\<close>, or \<open>Inl msg\<close> with the message of what
  \<open>client.put\<close> threw, and hands back the world and the stores as they are when the handler
  resumes, after whatever other calls ran in the meantime. The loop threads that state,
  \<open>successCount\<close> and \<open>errors\<close>; its last component lists every request made with its
  answer, in the order made.\<close>

type_synonym ('w, 'd) sys = "'w \<times> (plan_payload, 'd) stores"

type_synonym ('w, 'd) put_fn = "('w, 'd) sys \<Rightarrow> put_request \<Rightarrow> (string + unit) \<times> ('w, 'd) sys"

type_synonym call_log = "(put_request \<times> (string + unit)) list"

fun commit_loop ::
  "('w, 'd) put_fn \<Rightarrow> plan_payload \<Rightarrow> string list
     \<Rightarrow> ('w, 'd) sys \<times> nat \<times> (string \<times> string) list \<times> call_log
     \<Rightarrow> ('w, 'd) sys \<times> nat \<times> (string \<times> string) list \<times> call_log" where
  "commit_loop put pl [] st = st"
| "commit_loop put pl (sku # rest) (s, successCount, errs, calls) =
     (case put s (putRequest pl sku) of
        (Inr u, s') \<Rightarrow>
          commit_loop put pl rest
            (s', successCount + 1, errs, calls @ [(putRequest pl sku, Inr u)])
      | (Inl msg, s') \<Rightarrow>
          commit_loop put pl rest
            (s', successCount, errs @ [(sku, msg)], calls @ [(putRequest pl sku, Inl msg)]))"

definition summaryOf :: "nat \<Rightarrow> nat \<Rightarrow> nat \<Rightarrow> string" where
  "summaryOf successCount n errorCount =
     ''Updated '' @ natToString successCount @ ''/'' @ natToString n @ '' products. '' @
     natToString errorCount @ '' errors.''"

subsection \<open>The handler\<close>

text \<open>The idempotency check: with a non-empty key, the entry the ledger holds for it.\<close>

definition lookupExisting :: "commit_params \<Rightarrow> ledger \<Rightarrow> IdempotencyEntry option" where
  "lookupExisting validated l =
     (case v_idempotency_key validated of
        None \<Rightarrow> None
      | Some k \<Rightarrow> if k \<noteq> [] then ledger_get k l else None)"

text \<open>The ledger after the commit: with a non-empty key, the summary is recorded.\<close>

definition recordSummary ::
  "int \<Rightarrow> string option \<Rightarrow> commit_params \<Rightarrow> string \<Rightarrow> ledger \<Rightarrow> (failure + unit) \<times> ledger" where
  "recordSummary now writeFailure validated summary l =
     (case v_idempotency_key validated of
        None \<Rightarrow> (Inr (), l)
      | Some k \<Rightarrow>
          if k \<noteq> []
          then record_entry now writeFailure k ''catalog.commit_bulk_update'' summary l
          else (Inr (), l))"

text \<open>\<open>catalog.commit_bulk_update\<close>. \<open>clock w\<close> is what \<open>new Date()\<close> reads in state \<open>w\<close>
  of the world, \<open>writeError w\<close> is the message of what writing the ledger file throws in
  that state, if it throws, and \<open>put\<close> is the \<open>put\<close> of the client that
  \<open>context.getClient()\<close> hands out (the dispatcher runs the handler only for a session that
  holds a token, and every session holds a base address). Up to the first request nothing
  is awaited. Iterating over a \<open>skus\<close> that is \<open>undefined\<close> throws a \<open>TypeError\<close>. The
  result is what the handler returns or throws, the world, the two stores, and the requests
  made against the platform.\<close>

definition commit_bulk_update ::
  "(string \<Rightarrow> bool) \<Rightarrow> McpConfig \<Rightarrow> ('w \<Rightarrow> int) \<Rightarrow> ('w \<Rightarrow> string option) \<Rightarrow> ('w, 'd) put_fn
     \<Rightarrow> params \<Rightarrow> ('w, 'd) sys
     \<Rightarrow> (failure + response) \<times> 'w \<times> (plan_payload, 'd) stores \<times> call_log" where
  "commit_bulk_update isUuid config clock writeError put ps ws =
     (case ws of (w, st) \<Rightarrow>
      (case CommitPlanSchema_parse isUuid ps of
         Inl e \<Rightarrow> (Inl e, w, st, [])
       | Inr validated \<Rightarrow>
         (case requireConfirmation config Risk ps of
            Inl e \<Rightarrow> (Inl e, w, st, [])
          | Inr u \<Rightarrow>
            (case lookupExisting validated (idempotencyLedger st) of
               Some existing \<Rightarrow>
                 (Inr (IdempotencyMatch ''Operation already completed (idempotency match)''
                         (result_summary existing)), w, st, [])
             | None \<Rightarrow>
               (case consume (clock w) (v_plan_id validated) (planStore st) of
                  (None, plans') \<Rightarrow>
                    (Inl (Error ''Plan not found or expired. Prepare a new plan.''),
                     w, st \<lparr> planStore := plans' \<rparr>, [])
                | (Some plan, plans') \<Rightarrow>
                    (case skus (payload plan) of
                       None \<Rightarrow>
                         (Inl (Error ''payload.skus is not iterable''),
                          w, st \<lparr> planStore := plans' \<rparr>, [])
                     | Some records \<Rightarrow>
                         (case commit_loop put (payload plan) records
                                 ((w, st \<lparr> planStore := plans' \<rparr>), 0, [], []) of
                            ((w', st'), successCount, errs, calls) \<Rightarrow>
                              let summary = summaryOf successCount (length records) (length errs)
                              in (case recordSummary (clock w') (writeError w') validated summary
                                         (idempotencyLedger st') of
                                    (Inl e, ledger') \<Rightarrow>
                                      (Inl e, w', st' \<lparr> idempotencyLedger := ledger' \<rparr>, calls)
                                  | (Inr u, ledger') \<Rightarrow>
                                      (Inr (BulkResult
                                              \<lparr> message = summary,
                                                success_count = successCount,
                                                error_count = length errs,
                                                errors = (if length errs > 0 then Some errs
                                                          else None) \<rparr>),
                                       w', st' \<lparr> idempotencyLedger := ledger' \<rparr>, calls)))))))))"

section \<open>Reading the log of a commit\<close>

text \<open>The failed records with their messages, read off the records and the log of the
  requests made for them.\<close>

definition failures :: "string list \<Rightarrow> call_log \<Rightarrow> (string \<times> string) list" where
  "failures records calls =
     map (\<lambda>(sku, c). (sku, projl (snd c))) (filter (\<lambda>(sku, c). isl (snd c)) (zip records calls))"

section \<open>Example inputs\<close>

definition plan_example :: "(plan_payload, unit) BulkPlan" where
  "plan_example =
     \<lparr> plan_id = ''p1'', action = ''catalog.commit_bulk_update'', created_at = 0,
       expires_at = 1800000,
       payload = \<lparr> skus = Some [''A'', ''B''], updates = Some [(''name'', JStr ''x'')],
                   scope = None \<rparr>,
       affected_count = 2, sample_diffs = None, warnings = None \<rparr>"

text \<open>A plan as \<open>cms.prepare_bulk_update_pages\<close> stores it: its payload has page ids and
  updates, and no \<open>skus\<close>.\<close>

definition cms_plan_example :: "(plan_payload, unit) BulkPlan" where
  "cms_plan_example =
     \<lparr> plan_id = ''p1'', action = ''cms.commit_bulk_update_pages'', created_at = 0,
       expires_at = 1800000,
       payload = \<lparr> skus = None, updates = Some [(''title'', JStr ''x'')], scope = None \<rparr>,
       affected_count = 2, sample_diffs = None, warnings = None \<rparr>"

definition params_example :: "string \<Rightarrow> string \<Rightarrow> params" where
  "params_example r k =
     (\<lambda>name. if name = ''plan_id'' then JStr ''p1''
              else if name = ''confirm'' then JBool True
              else if name = ''reason'' then JStr r
              else if name = ''idempotency_key'' then JStr k
              else JUndefined)"

definition empty_ledger :: ledger where
  "empty_ledger = \<lparr> entries = [], persisted = [] \<rparr>"

text \<open>A schema library that takes every string for a UUID, a clock that stands still, a
  file system that never fails and one that always does, a platform that accepts every
  request, and one that accepts the first request only (its world counts the requests).\<close>

definition any_uuid :: "string \<Rightarrow> bool" where
  "any_uuid s = True"

definition clock_at :: "int \<Rightarrow> 'w \<Rightarrow> int" where
  "clock_at t w = t"

definition write_ok :: "'w \<Rightarrow> string option" where
  "write_ok w = None"

definition write_fails :: "'w \<Rightarrow> string option" where
  "write_fails w = Some ''ENOSPC: no space left on device, write''"

definition put_ok :: "(unit, unit) put_fn" where
  "put_ok s req = (Inr (), s)"

definition put_first_only :: "(nat, unit) put_fn" where
  "put_first_only s req =
     (if fst s = 0 then Inr () else Inl ''Magento API Error (404): no such product'',
      (Suc (fst s), snd s))"

definition stores_example :: "(plan_payload, unit) stores" where
  "stores_example = \<lparr> planStore = [(''p1'', plan_example)], idempotencyLedger = empty_ledger \<rparr>"

definition entry_example :: IdempotencyEntry where
  "entry_example =
     \<lparr> entry_key = ''k1'', entry_action = ''catalog.commit_bulk_update'', entry_created_at = 5,
       result_summary = ''Updated 2/2 products. 0 errors.'' \<rparr>"

definition stores_committed :: "(plan_payload, unit) stores" where
  "stores_committed =
     \<lparr> planStore = [],
       idempotencyLedger = \<lparr> entries = [(''k1'', entry_example)], persisted = [entry_example] \<rparr> \<rparr>"

text \<open>The entry that another call, in flight under the same key, records while this one
  awaits its requests; and a platform during whose every answer that happens.\<close>

definition entry_other :: IdempotencyEntry where
  "entry_other =
     \<lparr> entry_key = ''k1'', entry_action = ''catalog.commit_bulk_update'', entry_created_at = 4,
       result_summary = ''Updated 0/1 products. 1 errors.'' \<rparr>"

definition put_racing :: "(unit, unit) put_fn" where
  "put_racing s req =
     (Inr (),
      (fst s,
       (snd s) \<lparr> idempotencyLedger :=
          snd (record_entry 4 None ''k1'' ''catalog.commit_bulk_update''
                 ''Updated 0/1 products. 1 errors.'' (idempotencyLedger (snd s))) \<rparr>))"

text \<open>A call without parameters, and the configuration with the confirmation switch off.\<close>

definition no_params :: params where
  "no_params name = JUndefined"

definition config_unconfirmed :: McpConfig where
  "config_unconfirmed = defaultConfig \<lparr> tier2ConfirmationRequired := False \<rparr>"

text \<open>Credentials, and the query of a product search whose filter groups reach number 10
  (as \<open>buildSearchParams\<close> names them).\<close>

definition creds_example :: OAuthCredentials where
  "creds_example =
     \<lparr> consumerKey = ''ck'', consumerSecret = ''cs'', token = ''tk'', tokenSecret = ''ts'' \<rparr>"

definition query_example :: "(string \<times> string) list" where
  "query_example =
     [(''searchCriteria[filterGroups][1][filters][0][field]'', ''sku''),
      (''searchCriteria[filterGroups][10][filters][0][field]'', ''name'')]"

section \<open>Facts about the plan store\<close>

lemma get_absent: "map_of ps i = None \<Longrightarrow> get now i ps = (None, ps)"
  by (simp add: get_def)

lemma consume_absent: "map_of ps i = None \<Longrightarrow> consume now i ps = (None, ps)"
  by (simp add: consume_def get_absent)

lemma get_keeps_absent: "map_of ps i = None \<Longrightarrow> map_of (snd (get now j ps)) i = None"
  by (simp add: get_def AList.delete_conv split: option.splits)

lemma consume_keeps_absent: "map_of ps i = None \<Longrightarrow> map_of (snd (consume now j ps)) i = None"
  by (simp add: consume_def get_def AList.delete_conv split: option.splits)

lemma consume_removes: "map_of (snd (consume now i ps)) i = None"
  by (simp add: consume_def get_def AList.delete_conv split: option.splits)

lemma cleanup_keeps_absent: "map_of ps i = None \<Longrightarrow> map_of (snd (cleanup now ps)) i = None"
  by (auto simp: cleanup_def map_of_eq_None_iff)

lemma create_keeps_absent:
  "map_of ps i = None \<Longrightarrow> uuid \<noteq> i \<Longrightarrow>
     map_of (snd (create uuid now act pl n mins sd ws ps)) i = None"
  by (simp add: create_def Let_def AList.update_conv)

lemma apply_store_op_keeps_absent:
  assumes a: "map_of ps i = None" and n: "\<not> creates i op"
  shows "map_of (apply_store_op op ps) i = None"
proof (cases op)
  case (Pair now c)
  show ?thesis
  proof (cases c)
    case (OpCreate uuid act pl k mins sd ws)
    with Pair n have "uuid \<noteq> i" by simp
    with a Pair OpCreate show ?thesis by (simp add: create_keeps_absent)
  next
    case (OpGet j)
    with a Pair show ?thesis by (simp add: get_keeps_absent)
  next
    case (OpConsume j)
    with a Pair show ?thesis by (simp add: consume_keeps_absent)
  next
    case OpCleanup
    with a Pair show ?thesis by (simp add: cleanup_keeps_absent)
  qed
qed

lemma fold_keeps_absent:
  "map_of ps i = None \<Longrightarrow> \<forall>op \<in> set ops. \<not> creates i op \<Longrightarrow>
     map_of (fold apply_store_op ops ps) i = None"
proof (induction ops arbitrary: ps)
  case Nil
  then show ?case by simp
next
  case (Cons op ops)
  from Cons.prems have "map_of (apply_store_op op ps) i = None"
    by (simp add: apply_store_op_keeps_absent)
  moreover from Cons.prems have "\<forall>op \<in> set ops. \<not> creates i op" by simp
  ultimately show ?case using Cons.IH by simp
qed

section \<open>The branches of the commit handler\<close>

lemma commit_parse_fail:
  "CommitPlanSchema_parse isUuid ps = Inl e \<Longrightarrow>
     commit_bulk_update isUuid config clock writeError put ps (w, st) = (Inl e, w, st, [])"
  by (simp add: commit_bulk_update_def)

lemma commit_gate_fail:
  "CommitPlanSchema_parse isUuid ps = Inr v \<Longrightarrow> requireConfirmation config Risk ps = Inl e \<Longrightarrow>
     commit_bulk_update isUuid config clock writeError put ps (w, st) = (Inl e, w, st, [])"
  by (simp add: commit_bulk_update_def)

lemma commit_replay:
  "CommitPlanSchema_parse isUuid ps = Inr v \<Longrightarrow> requireConfirmation config Risk ps = Inr u \<Longrightarrow>
   lookupExisting v (idempotencyLedger st) = Some existing \<Longrightarrow>
     commit_bulk_update isUuid config clock writeError put ps (w, st) =
       (Inr (IdempotencyMatch ''Operation already completed (idempotency match)''
               (result_summary existing)), w, st, [])"
  by (simp add: commit_bulk_update_def)

lemma commit_not_found:
  "CommitPlanSchema_parse isUuid ps = Inr v \<Longrightarrow> requireConfirmation config Risk ps = Inr u \<Longrightarrow>
   lookupExisting v (idempotencyLedger st) = None \<Longrightarrow>
   consume (clock w) (v_plan_id v) (planStore st) = (None, plans') \<Longrightarrow>
     commit_bulk_update isUuid config clock writeError put ps (w, st) =
       (Inl (Error ''Plan not found or expired. Prepare a new plan.''),
        w, st \<lparr> planStore := plans' \<rparr>, [])"
  by (simp add: commit_bulk_update_def)

lemma commit_no_skus:
  "CommitPlanSchema_parse isUuid ps = Inr v \<Longrightarrow> requireConfirmation config Risk ps = Inr u \<Longrightarrow>
   lookupExisting v (idempotencyLedger st) = None \<Longrightarrow>
   consume (clock w) (v_plan_id v) (planStore st) = (Some plan, plans') \<Longrightarrow>
   skus (payload plan) = None \<Longrightarrow>
     commit_bulk_update isUuid config clock writeError put ps (w, st) =
       (Inl (Error ''payload.skus is not iterable''), w, st \<lparr> planStore := plans' \<rparr>, [])"
  by (simp add: commit_bulk_update_def)

lemma commit_run:
  "CommitPlanSchema_parse isUuid ps = Inr v \<Longrightarrow> requireConfirmation config Risk ps = Inr u \<Longrightarrow>
   lookupExisting v (idempotencyLedger st) = None \<Longrightarrow>
   consume (clock w) (v_plan_id v) (planStore st) = (Some plan, plans') \<Longrightarrow>
   skus (payload plan) = Some xs \<Longrightarrow>
   commit_loop put (payload plan) xs ((w, st \<lparr> planStore := plans' \<rparr>), 0, [], []) =
     ((w', st'), n, errs, calls) \<Longrightarrow>
   recordSummary (clock w') (writeError w') v (summaryOf n (length xs) (length errs))
     (idempotencyLedger st') = (outcome, ledger') \<Longrightarrow>
     commit_bulk_update isUuid config clock writeError put ps (w, st) =
       ((case outcome of
           Inl e \<Rightarrow> Inl e
         | Inr u \<Rightarrow>
             Inr (BulkResult
                    \<lparr> message = summaryOf n (length xs) (length errs),
                      success_count = n,
                      error_count = length errs,
                      errors = (if length errs > 0 then Some errs else None) \<rparr>)),
        w', st' \<lparr> idempotencyLedger := ledger' \<rparr>, calls)"
  by (cases outcome) (simp_all add: commit_bulk_update_def Let_def)

lemma parse_idempotency_key:
  "CommitPlanSchema_parse isUuid ps = Inr v \<Longrightarrow> ps ''idempotency_key'' = JStr k \<Longrightarrow>
     v_idempotency_key v = Some k"
  by (auto simp: CommitPlanSchema_parse_def split: jsval.splits if_splits)

section \<open>Plans: lazy expiry and consumption\<close>

text \<open>
  Claim C6. A plan that is in the store (never consumed) and whose expiry has passed is
  reported absent by both \<open>get\<close> and \<open>consume\<close>, and the call deletes it from the store;
  a plan whose expiry has not passed is returned by \<open>get\<close>, and the store stays as it is.
\<close>

theorem expired_plan_absent:
  assumes "map_of ps i = Some p"
  shows "(expires_at p < now \<longrightarrow>
            get now i ps = (None, AList.delete i ps) \<and>
            consume now i ps = (None, AList.delete i ps) \<and>
            map_of (AList.delete i ps) i = None) \<and>
         (\<not> expires_at p < now \<longrightarrow> get now i ps = (Some p, ps))"
  using assms by (simp add: get_def consume_def AList.delete_conv)

theorem expired_plan_absent_witness:
  "map_of [(''p1'', plan_example)] ''p1'' = Some plan_example \<and>
   expires_at plan_example < 1800001 \<and>
   get 1800001 ''p1'' [(''p1'', plan_example)] = (None, []) \<and>
   consume 1800001 ''p1'' [(''p1'', plan_example)] = (None, []) \<and>
   \<not> expires_at plan_example < 1800000 \<and>
   get 1800000 ''p1'' [(''p1'', plan_example)] = (Some plan_example, [(''p1'', plan_example)])"
proof -
  have h: "map_of [(''p1'', plan_example)] ''p1'' = Some plan_example" by simp
  have d: "AList.delete ''p1'' [(''p1'', plan_example)] = []" by (simp add: AList.delete_eq)
  have e: "expires_at plan_example = 1800000" by (simp add: plan_example_def)
  from expired_plan_absent [OF h, of 1800001] expired_plan_absent [OF h, of 1800000] h d e
  show ?thesis by simp
qed

text \<open>
  Claim C1. Once \<open>consume\<close> has returned a plan, a later \<open>consume\<close> of the same id returns
  absent, whatever calls of the store come in between, as long as none of them creates
  that id; and a commit whose call reaches \<open>consume\<close> with that id throws
  \<open>Plan not found or expired\<close>, sends nothing to the platform and changes neither store.
\<close>

theorem plan_consumed_at_most_once:
  assumes first: "consume t1 i ps = (Some p, ps1)"
      and between: "\<forall>op \<in> set ops. \<not> creates i op"
  shows "consume t2 i (fold apply_store_op ops ps1) = (None, fold apply_store_op ops ps1) \<and>
         (\<forall>v. planStore st = fold apply_store_op ops ps1 \<longrightarrow>
              CommitPlanSchema_parse isUuid prm = Inr v \<longrightarrow> v_plan_id v = i \<longrightarrow>
              requireConfirmation config Risk prm = Inr () \<longrightarrow>
              lookupExisting v (idempotencyLedger st) = None \<longrightarrow>
              commit_bulk_update isUuid config clock writeError put prm (w, st) =
                (Inl (Error ''Plan not found or expired. Prepare a new plan.''), w, st, []))"
proof -
  let ?ps2 = "fold apply_store_op ops ps1"
  from consume_removes [of t1 i ps] first have "map_of ps1 i = None" by simp
  from this between have gone: "map_of ?ps2 i = None" by (rule fold_keeps_absent)
  then have again: "consume t2 i ?ps2 = (None, ?ps2)" by (rule consume_absent)
  have "commit_bulk_update isUuid config clock writeError put prm (w, st) =
          (Inl (Error ''Plan not found or expired. Prepare a new plan.''), w, st, [])"
    if s: "planStore st = ?ps2" and v: "CommitPlanSchema_parse isUuid prm = Inr v"
      and pid: "v_plan_id v = i" and g: "requireConfirmation config Risk prm = Inr ()"
      and l: "lookupExisting v (idempotencyLedger st) = None" for v
  proof -
    from gone s pid have "consume (clock w) (v_plan_id v) (planStore st) = (None, planStore st)"
      by (simp add: consume_absent)
    from commit_not_found [where clock = clock and w = w and writeError = writeError and put = put, OF v g l this] show ?thesis by simp
  qed
  with again show ?thesis by blast
qed

lemma params_example_parse:
  "r \<noteq> [] \<Longrightarrow> CommitPlanSchema_parse any_uuid (params_example r k) =
     Inr \<lparr> v_plan_id = ''p1'', v_reason = r, v_idempotency_key = Some k \<rparr>"
  by (cases r) (simp_all add: CommitPlanSchema_parse_def params_example_def any_uuid_def)

lemma params_example_gate:
  "requireConfirmation defaultConfig Risk (params_example ''approved by ops'' k) = Inr ()"
  by (simp add: requireConfirmation_def params_example_def defaultConfig_def trim_def
      isWhiteSpace_def)

theorem plan_consumed_at_most_once_witness:
  "consume 5 ''p1'' [(''p1'', plan_example)] = (Some plan_example, []) \<and>
   consume 9 ''p1''
     (fold apply_store_op
        [(6, OpGet ''p1''), (7, OpCleanup), (8, OpConsume ''p3'')]
        ([] :: (plan_payload, unit) plans)) =
     (None,
      fold apply_store_op
        [(6, OpGet ''p1''), (7, OpCleanup), (8, OpConsume ''p3'')]
        ([] :: (plan_payload, unit) plans)) \<and>
   commit_bulk_update any_uuid defaultConfig (clock_at 9) write_ok put_ok
       (params_example ''approved by ops'' ''k1'')
       ((), \<lparr> planStore = ([] :: (plan_payload, unit) plans), idempotencyLedger = empty_ledger \<rparr>) =
     (Inl (Error ''Plan not found or expired. Prepare a new plan.''),
      (), \<lparr> planStore = [], idempotencyLedger = empty_ledger \<rparr>, [])"
proof -
  have h1: "consume 5 ''p1'' [(''p1'', plan_example)] = (Some plan_example, [])"
    by (simp add: consume_def get_def plan_example_def AList.delete_eq)
  have h2: "\<forall>op \<in> set [(6, OpGet ''p1''), (7, OpCleanup), (8, OpConsume ''p3'')].
              \<not> creates ''p1'' (op :: int \<times> (plan_payload, unit) store_op)"
    by simp
  have h4: "fold apply_store_op [(6, OpGet ''p1''), (7, OpCleanup), (8, OpConsume ''p3'')]
              ([] :: (plan_payload, unit) plans) = []"
    by (simp add: get_def cleanup_def consume_def)
  have h3: "lookupExisting \<lparr> v_plan_id = ''p1'', v_reason = ''approved by ops'',
              v_idempotency_key = Some ''k1'' \<rparr> empty_ledger = None"
    by (simp add: lookupExisting_def ledger_get_def empty_ledger_def)
  from plan_consumed_at_most_once [OF h1 h2, of 9
      "\<lparr> planStore = [], idempotencyLedger = empty_ledger \<rparr>" any_uuid
      "params_example ''approved by ops'' ''k1''" defaultConfig "clock_at 9" write_ok put_ok "()"]
    h1 h3 params_example_gate [of "''k1''"] params_example_parse [of "''approved by ops''" "''k1''"]
  show ?thesis unfolding h4 by simp
qed

section \<open>Facts about the ledger and the loop\<close>

lemma ledger_get_record_same:
  "ledger_get k (snd (record_entry now wfail k act s l)) =
     Some \<lparr> entry_key = k, entry_action = act, entry_created_at = now, result_summary = s \<rparr>"
  by (cases wfail)
    (simp_all add: ledger_get_def record_entry_def persist_def Let_def AList.update_conv)

lemma ledger_get_record_other:
  "k' \<noteq> k \<Longrightarrow> ledger_get k' (snd (record_entry now wfail k act s l)) = ledger_get k' l"
  by (cases wfail)
    (simp_all add: ledger_get_def record_entry_def persist_def Let_def AList.update_conv)

lemma record_entry_outcome:
  "fst (record_entry now wfail k act s l) = (case wfail of None \<Rightarrow> Inr () | Some msg \<Rightarrow> Inl (Error msg))"
  by (cases wfail) (simp_all add: record_entry_def persist_def Let_def)


lemma commit_loop_trace:
  "commit_loop put pl xs (s, n, errs, calls) = (s', n', errs', calls') \<Longrightarrow>
     \<exists>new sts. calls' = calls @ new \<and> length new = length xs \<and>
       length sts = Suc (length xs) \<and> sts ! 0 = s \<and> sts ! length xs = s' \<and>
       (\<forall>i < length xs. fst (new ! i) = putRequest pl (xs ! i) \<and>
          put (sts ! i) (putRequest pl (xs ! i)) = (snd (new ! i), sts ! Suc i)) \<and>
       n' = n + length (filter (\<lambda>c. \<not> isl (snd c)) new) \<and>
       errs' = errs @ failures xs new"
proof (induction xs arbitrary: s n errs calls)
  case Nil
  then have "calls' = calls @ [] \<and> length ([] :: call_log) = length ([] :: string list) \<and>
      length [s] = Suc (length ([] :: string list)) \<and> [s] ! 0 = s \<and>
      [s] ! length ([] :: string list) = s' \<and>
      n' = n + length (filter (\<lambda>c. \<not> isl (snd c)) ([] :: call_log)) \<and>
      errs' = errs @ failures [] []"
    by (simp add: failures_def)
  then show ?case by (intro exI [of _ "[]"] exI [of _ "[s]"]) simp
next
  case (Cons x rest)
  obtain a s1 where p: "put s (putRequest pl x) = (a, s1)"
    by (cases "put s (putRequest pl x)")
  let ?c = "(putRequest pl x, a)"
  let ?n1 = "if isl a then n else n + 1"
  let ?e1 = "if isl a then errs @ [(x, projl a)] else errs"
  from p Cons.prems have
    "commit_loop put pl rest (s1, ?n1, ?e1, calls @ [?c]) = (s', n', errs', calls')"
    by (cases a) simp_all
  from Cons.IH [OF this] obtain new sts where
    c: "calls' = (calls @ [?c]) @ new" and ln: "length new = length rest" and
    ls: "length sts = Suc (length rest)" and s0: "sts ! 0 = s1" and
    sl: "sts ! length rest = s'" and
    step: "\<forall>i < length rest. fst (new ! i) = putRequest pl (rest ! i) \<and>
             put (sts ! i) (putRequest pl (rest ! i)) = (snd (new ! i), sts ! Suc i)" and
    cnt: "n' = ?n1 + length (filter (\<lambda>c. \<not> isl (snd c)) new)" and
    er: "errs' = ?e1 @ failures rest new"
    by blast
  let ?new = "?c # new"
  let ?sts = "s # sts"
  have "\<forall>i < length (x # rest). fst (?new ! i) = putRequest pl ((x # rest) ! i) \<and>
          put (?sts ! i) (putRequest pl ((x # rest) ! i)) = (snd (?new ! i), ?sts ! Suc i)"
  proof (intro allI impI)
    fix i assume "i < length (x # rest)"
    show "fst (?new ! i) = putRequest pl ((x # rest) ! i) \<and>
          put (?sts ! i) (putRequest pl ((x # rest) ! i)) = (snd (?new ! i), ?sts ! Suc i)"
    proof (cases i)
      case 0
      with p s0 show ?thesis by simp
    next
      case (Suc j)
      with \<open>i < length (x # rest)\<close> have "j < length rest" by simp
      with step Suc show ?thesis by simp
    qed
  qed
  moreover have "calls' = calls @ ?new" using c by simp
  moreover have "length ?new = length (x # rest)" using ln by simp
  moreover have "length ?sts = Suc (length (x # rest))" using ls by simp
  moreover have "?sts ! 0 = s" by simp
  moreover have "?sts ! length (x # rest) = s'" using sl by simp
  moreover have "n' = n + length (filter (\<lambda>c. \<not> isl (snd c)) ?new)"
    using cnt by (cases a) simp_all
  moreover have "errs' = errs @ failures (x # rest) ?new"
    using er by (cases a) (simp_all add: failures_def)
  ultimately show ?case by blast
qed

lemma length_failures:
  "length cs = length xs \<Longrightarrow> length (failures xs cs) = length (filter (\<lambda>c. isl (snd c)) cs)"
proof (induction xs cs rule: list_induct2')
  case (4 x xs c cs)
  then show ?case by (simp add: failures_def)
qed (simp_all add: failures_def)

text \<open>What a call that returned the result of a commit under a key has left in the ledger.\<close>

lemma commit_records_key:
  assumes ret: "commit_bulk_update isUuid config clock writeError put ps (w, st) =
                   (Inr (BulkResult b), w', st', calls)"
      and key: "ps ''idempotency_key'' = JStr k" and ne: "k \<noteq> []"
  shows "ledger_get k (idempotencyLedger st') =
           Some \<lparr> entry_key = k, entry_action = ''catalog.commit_bulk_update'',
                  entry_created_at = clock w', result_summary = message b \<rparr>"
proof (cases "CommitPlanSchema_parse isUuid ps")
  case (Inl e)
  with ret show ?thesis by (simp add: commit_parse_fail)
next
  case v: (Inr v)
  from parse_idempotency_key [OF v key] have vk: "v_idempotency_key v = Some k" .
  show ?thesis
  proof (cases "requireConfirmation config Risk ps")
    case (Inl e)
    with v ret show ?thesis by (simp add: commit_gate_fail)
  next
    case g: (Inr u)
    show ?thesis
    proof (cases "lookupExisting v (idempotencyLedger st)")
      case (Some existing)
      with v g ret show ?thesis by (simp add: commit_replay)
    next
      case l: None
      obtain found plans' where
        c: "consume (clock w) (v_plan_id v) (planStore st) = (found, plans')"
        by (cases "consume (clock w) (v_plan_id v) (planStore st)")
      show ?thesis
      proof (cases found)
        case None
        with c have "consume (clock w) (v_plan_id v) (planStore st) = (None, plans')" by simp
        from commit_not_found [where clock = clock and w = w and writeError = writeError
            and put = put, OF v g l this] ret
        show ?thesis by simp
      next
        case (Some plan)
        with c have c': "consume (clock w) (v_plan_id v) (planStore st) = (Some plan, plans')"
          by simp
        show ?thesis
        proof (cases "skus (payload plan)")
          case None
          from commit_no_skus [where clock = clock and w = w and writeError = writeError
              and put = put, OF v g l c' None] ret
          show ?thesis by simp
        next
          case xs: (Some xs)
          obtain w2 st2 n errs cs where
            lp: "commit_loop put (payload plan) xs ((w, st \<lparr> planStore := plans' \<rparr>), 0, [], []) =
                   ((w2, st2), n, errs, cs)"
            by (cases "commit_loop put (payload plan) xs ((w, st \<lparr> planStore := plans' \<rparr>), 0, [], [])")
              auto
          let ?s = "summaryOf n (length xs) (length errs)"
          obtain outcome l2 where
            r: "recordSummary (clock w2) (writeError w2) v ?s (idempotencyLedger st2) = (outcome, l2)"
            by (cases "recordSummary (clock w2) (writeError w2) v ?s (idempotencyLedger st2)")
          from commit_run [where clock = clock and w = w and writeError = writeError,
              OF v g l c' xs lp r] ret
          have eq: "w' = w2" "st' = st2 \<lparr> idempotencyLedger := l2 \<rparr>" "message b = ?s"
            by (cases outcome; simp)+
          from r vk ne have
            "l2 = snd (record_entry (clock w2) (writeError w2) k ''catalog.commit_bulk_update'' ?s
                         (idempotencyLedger st2))"
            by (simp add: recordSummary_def)
          with eq show ?thesis by (simp add: ledger_get_record_same)
        qed
      qed
    qed
  qed
qed

text \<open>A call that presents a key the ledger holds.\<close>

lemma commit_known_key:
  assumes k: "ledger_get k (idempotencyLedger st) = Some e" and ne: "k \<noteq> []"
      and key: "ps ''idempotency_key'' = JStr k"
  shows "commit_bulk_update isUuid config clock writeError put ps (w, st) =
           ((case CommitPlanSchema_parse isUuid ps of
               Inl err \<Rightarrow> Inl err
             | Inr v \<Rightarrow>
                 (case requireConfirmation config Risk ps of
                    Inl err \<Rightarrow> Inl err
                  | Inr u \<Rightarrow>
                      Inr (IdempotencyMatch ''Operation already completed (idempotency match)''
                             (result_summary e)))),
            w, st, [])"
proof (cases "CommitPlanSchema_parse isUuid ps")
  case (Inl err)
  then show ?thesis by (simp add: commit_parse_fail)
next
  case v: (Inr v)
  from parse_idempotency_key [OF v key] k ne
  have l: "lookupExisting v (idempotencyLedger st) = Some e"
    by (simp add: lookupExisting_def)
  show ?thesis
  proof (cases "requireConfirmation config Risk ps")
    case (Inl err)
    with v show ?thesis by (simp add: commit_gate_fail)
  next
    case g: (Inr u)
    from commit_replay [where clock = clock and w = w and put = put
        and writeError = writeError, OF v g l] v g
    show ?thesis by simp
  qed
qed

section \<open>Evaluating the examples\<close>

lemma summary_two_of_two: "summaryOf 2 2 0 = ''Updated 2/2 products. 0 errors.''"
  by (simp add: summaryOf_def natToString.simps digitChar_def)

lemma summary_one_of_two: "summaryOf 1 2 1 = ''Updated 1/2 products. 1 errors.''"
  by (simp add: summaryOf_def natToString.simps digitChar_def)

lemma summary_two_of_two_Suc:
  "summaryOf 2 (Suc (Suc 0)) 0 = ''Updated 2/2 products. 0 errors.''"
  using summary_two_of_two by (simp add: numeral_2_eq_2)

lemma summary_one_of_two_Suc:
  "summaryOf (Suc 0) (Suc (Suc 0)) (Suc 0) = ''Updated 1/2 products. 1 errors.''"
  using summary_one_of_two by (simp add: numeral_2_eq_2)



lemma approved_parse:
  "CommitPlanSchema_parse any_uuid (params_example ''approved by ops'' ''k1'') =
     Inr \<lparr> v_plan_id = ''p1'', v_reason = ''approved by ops'', v_idempotency_key = Some ''k1'' \<rparr>"
  by (simp add: CommitPlanSchema_parse_def params_example_def any_uuid_def)

lemma approved_gate:
  "requireConfirmation defaultConfig Risk (params_example ''approved by ops'' ''k1'') = Inr ()"
  by (simp add: requireConfirmation_def params_example_def defaultConfig_def trim_def
      isWhiteSpace_def)



lemma example_key: "params_example r k ''idempotency_key'' = JStr k"
  by (simp add: params_example_def)

lemma example_consume:
  "consume 5 ''p1'' [(''p1'', plan_example)] = (Some plan_example, [])"
  by (simp add: consume_def get_def plan_example_def AList.delete_eq)

lemma example_consume_cms:
  "consume 5 ''p1'' [(''p1'', cms_plan_example)] = (Some cms_plan_example, [])"
  by (simp add: consume_def get_def cms_plan_example_def AList.delete_eq)

lemma example_lookup:
  "lookupExisting \<lparr> v_plan_id = ''p1'', v_reason = ''approved by ops'',
      v_idempotency_key = Some ''k1'' \<rparr> empty_ledger = None"
  by (simp add: lookupExisting_def ledger_get_def empty_ledger_def)

lemma example_skus: "skus (payload plan_example) = Some [''A'', ''B'']"
  by (simp add: plan_example_def)

lemma example_requests:
  "putRequest (payload plan_example) ''A'' =
     \<lparr> endpoint = ''/V1/products/A'', product = [(''sku'', JStr ''A''), (''name'', JStr ''x'')],
       storeCode = None \<rparr>"
  "putRequest (payload plan_example) ''B'' =
     \<lparr> endpoint = ''/V1/products/B'', product = [(''sku'', JStr ''B''), (''name'', JStr ''x'')],
       storeCode = None \<rparr>"
  by (simp_all add: putRequest_def plan_example_def productBody_def encodeURIComponent_def
      uriUnescaped_def)


lemma example_commit_partial:
  "commit_bulk_update any_uuid defaultConfig (clock_at 5) write_ok put_first_only
       (params_example ''approved by ops'' ''k1'') (0, stores_example) =
     (Inr (BulkResult \<lparr> message = ''Updated 1/2 products. 1 errors.'', success_count = 1,
                        error_count = 1,
                        errors = Some [(''B'', ''Magento API Error (404): no such product'')] \<rparr>),
      2,
      \<lparr> planStore = [],
        idempotencyLedger =
          \<lparr> entries = [(''k1'', entry_example \<lparr> result_summary := ''Updated 1/2 products. 1 errors.'' \<rparr>)],
            persisted = [entry_example \<lparr> result_summary := ''Updated 1/2 products. 1 errors.'' \<rparr>] \<rparr> \<rparr>,
      [(putRequest (payload plan_example) ''A'', Inr ()),
       (putRequest (payload plan_example) ''B'', Inl ''Magento API Error (404): no such product'')])"
proof -
  have l: "lookupExisting \<lparr> v_plan_id = ''p1'', v_reason = ''approved by ops'',
      v_idempotency_key = Some ''k1'' \<rparr> (idempotencyLedger stores_example) = None"
    using example_lookup by (simp add: stores_example_def)
  have c: "consume (clock_at 5 (0::nat)) (v_plan_id \<lparr> v_plan_id = ''p1'',
      v_reason = ''approved by ops'', v_idempotency_key = Some ''k1'' \<rparr>)
      (planStore stores_example) = (Some plan_example, [])"
    using example_consume by (simp add: stores_example_def clock_at_def)
  have lp: "commit_loop put_first_only (payload plan_example) [''A'', ''B'']
              ((0, stores_example \<lparr> planStore := [] \<rparr>), 0, [], []) =
            ((2, stores_example \<lparr> planStore := [] \<rparr>), 1,
             [(''B'', ''Magento API Error (404): no such product'')],
             [(putRequest (payload plan_example) ''A'', Inr ()),
              (putRequest (payload plan_example) ''B'',
               Inl ''Magento API Error (404): no such product'')])"
    by (simp add: put_first_only_def numeral_2_eq_2)
  have r: "recordSummary (clock_at 5 (2::nat)) (write_ok (2::nat)) \<lparr> v_plan_id = ''p1'',
              v_reason = ''approved by ops'', v_idempotency_key = Some ''k1'' \<rparr>
              (summaryOf 1 (length [''A'', ''B''])
                 (length [(''B'', ''Magento API Error (404): no such product'')]))
              (idempotencyLedger (stores_example \<lparr> planStore := [] \<rparr>)) =
            (Inr (),
             \<lparr> entries = [(''k1'', entry_example \<lparr> result_summary := ''Updated 1/2 products. 1 errors.'' \<rparr>)],
               persisted = [entry_example \<lparr> result_summary := ''Updated 1/2 products. 1 errors.'' \<rparr>] \<rparr>)"
    by (simp add: summary_one_of_two_Suc recordSummary_def record_entry_def persist_def Let_def
        stores_example_def entry_example_def empty_ledger_def clock_at_def write_ok_def)
  from commit_run [where clock = "clock_at 5" and w = "0::nat" and writeError = write_ok,
      OF approved_parse approved_gate l c example_skus lp r]
  show ?thesis
    by (simp add: summary_one_of_two_Suc stores_example_def)
qed


lemma example_commit_racing:
  "commit_bulk_update any_uuid defaultConfig (clock_at 5) write_ok put_racing
       (params_example ''approved by ops'' ''k1'') ((), stores_example) =
     (Inr (BulkResult \<lparr> message = ''Updated 2/2 products. 0 errors.'', success_count = 2,
                        error_count = 0, errors = None \<rparr>),
      (), stores_committed,
      [(putRequest (payload plan_example) ''A'', Inr ()),
       (putRequest (payload plan_example) ''B'', Inr ())])"
proof -
  let ?raced = "stores_example \<lparr> planStore := [],
                  idempotencyLedger := \<lparr> entries = [(''k1'', entry_other)],
                                          persisted = [entry_other] \<rparr> \<rparr>"
  have l: "lookupExisting \<lparr> v_plan_id = ''p1'', v_reason = ''approved by ops'',
      v_idempotency_key = Some ''k1'' \<rparr> (idempotencyLedger stores_example) = None"
    using example_lookup by (simp add: stores_example_def)
  have c: "consume (clock_at 5 ()) (v_plan_id \<lparr> v_plan_id = ''p1'', v_reason = ''approved by ops'',
      v_idempotency_key = Some ''k1'' \<rparr>) (planStore stores_example) = (Some plan_example, [])"
    using example_consume by (simp add: stores_example_def clock_at_def)
  have lp: "commit_loop put_racing (payload plan_example) [''A'', ''B'']
              (((), stores_example \<lparr> planStore := [] \<rparr>), 0, [], []) =
            (((), ?raced), 2, [],
             [(putRequest (payload plan_example) ''A'', Inr ()),
              (putRequest (payload plan_example) ''B'', Inr ())])"
    by (simp add: put_racing_def record_entry_def persist_def Let_def stores_example_def
        empty_ledger_def entry_other_def)
  have r: "recordSummary (clock_at 5 ()) (write_ok ()) \<lparr> v_plan_id = ''p1'',
              v_reason = ''approved by ops'', v_idempotency_key = Some ''k1'' \<rparr>
              (summaryOf 2 (length [''A'', ''B'']) (length ([] :: (string \<times> string) list)))
              (idempotencyLedger ?raced) =
            (Inr (), idempotencyLedger stores_committed)"
    by (simp add: summary_two_of_two_Suc recordSummary_def record_entry_def persist_def Let_def
        stores_committed_def entry_example_def clock_at_def write_ok_def)
  from commit_run [where clock = "clock_at 5" and w = "()" and writeError = write_ok,
      OF approved_parse approved_gate l c example_skus lp r]
  show ?thesis
    by (simp add: summary_two_of_two_Suc stores_example_def stores_committed_def)
qed

lemma example_commit_write_fails:
  "commit_bulk_update any_uuid defaultConfig (clock_at 5) write_fails put_ok
       (params_example ''approved by ops'' ''k1'') ((), stores_example) =
     (Inl (Error ''ENOSPC: no space left on device, write''),
      (),
      \<lparr> planStore = [],
        idempotencyLedger = \<lparr> entries = [(''k1'', entry_example)], persisted = [] \<rparr> \<rparr>,
      [(putRequest (payload plan_example) ''A'', Inr ()),
       (putRequest (payload plan_example) ''B'', Inr ())])"
proof -
  have l: "lookupExisting \<lparr> v_plan_id = ''p1'', v_reason = ''approved by ops'',
      v_idempotency_key = Some ''k1'' \<rparr> (idempotencyLedger stores_example) = None"
    using example_lookup by (simp add: stores_example_def)
  have c: "consume (clock_at 5 ()) (v_plan_id \<lparr> v_plan_id = ''p1'', v_reason = ''approved by ops'',
      v_idempotency_key = Some ''k1'' \<rparr>) (planStore stores_example) = (Some plan_example, [])"
    using example_consume by (simp add: stores_example_def clock_at_def)
  have lp: "commit_loop put_ok (payload plan_example) [''A'', ''B'']
              (((), stores_example \<lparr> planStore := [] \<rparr>), 0, [], []) =
            (((), stores_example \<lparr> planStore := [] \<rparr>), 2, [],
             [(putRequest (payload plan_example) ''A'', Inr ()),
              (putRequest (payload plan_example) ''B'', Inr ())])"
    by (simp add: put_ok_def)
  have r: "recordSummary (clock_at 5 ()) (write_fails ()) \<lparr> v_plan_id = ''p1'',
              v_reason = ''approved by ops'', v_idempotency_key = Some ''k1'' \<rparr>
              (summaryOf 2 (length [''A'', ''B'']) (length ([] :: (string \<times> string) list)))
              (idempotencyLedger (stores_example \<lparr> planStore := [] \<rparr>)) =
            (Inl (Error ''ENOSPC: no space left on device, write''),
             \<lparr> entries = [(''k1'', entry_example)], persisted = [] \<rparr>)"
    by (simp add: summary_two_of_two_Suc recordSummary_def record_entry_def persist_def Let_def
        stores_example_def entry_example_def empty_ledger_def clock_at_def write_fails_def)
  from commit_run [where clock = "clock_at 5" and w = "()" and writeError = write_fails,
      OF approved_parse approved_gate l c example_skus lp r]
  show ?thesis
    by (simp add: stores_example_def)
qed

lemma example_commit_cms:
  "commit_bulk_update any_uuid defaultConfig (clock_at 5) write_ok put_ok
       (params_example ''approved by ops'' ''k1'')
       ((), \<lparr> planStore = [(''p1'', cms_plan_example)], idempotencyLedger = empty_ledger \<rparr>) =
     (Inl (Error ''payload.skus is not iterable''), (),
      \<lparr> planStore = [], idempotencyLedger = empty_ledger \<rparr>, [])"
proof -
  let ?st = "\<lparr> planStore = [(''p1'', cms_plan_example)], idempotencyLedger = empty_ledger \<rparr>
               :: (plan_payload, unit) stores"
  have l: "lookupExisting \<lparr> v_plan_id = ''p1'', v_reason = ''approved by ops'',
      v_idempotency_key = Some ''k1'' \<rparr> (idempotencyLedger ?st) = None"
    using example_lookup by simp
  have c: "consume (clock_at 5 ()) (v_plan_id \<lparr> v_plan_id = ''p1'', v_reason = ''approved by ops'',
      v_idempotency_key = Some ''k1'' \<rparr>) (planStore ?st) = (Some cms_plan_example, [])"
    using example_consume_cms by (simp add: clock_at_def)
  have s: "skus (payload cms_plan_example) = None"
    by (simp add: cms_plan_example_def)
  from commit_no_skus [where clock = "clock_at 5" and w = "()" and writeError = write_ok
      and put = put_ok, OF approved_parse approved_gate l c s]
  show ?thesis by simp
qed

section \<open>Idempotency\<close>




text \<open>
  Claim C5, as stated, fails: \<open>record\<close> sets the entry of its key whether or not the key
  is present. After a first \<open>record\<close> under \<open>k1\<close>, a second \<open>record\<close> under \<open>k1\<close> replaces
  the stored entry.
\<close>

theorem record_overwrites_counterexample:
  "ledger_get ''k1'' (snd (record_entry 5 None ''k1'' ''catalog.commit_bulk_update''
       ''Updated 2/2 products. 0 errors.'' empty_ledger)) = Some entry_example \<and>
   ledger_get ''k1''
     (snd (record_entry 9 None ''k1'' ''pricing.commit_bulk_price_update''
        ''Updated prices for 0/2 products. 2 errors.''
        (snd (record_entry 5 None ''k1'' ''catalog.commit_bulk_update''
           ''Updated 2/2 products. 0 errors.'' empty_ledger)))) \<noteq> Some entry_example"
  by (simp add: ledger_get_record_same entry_example_def)

text \<open>
  Claim C5, amended. \<open>record(key, action, summary)\<close> stores the new entry under \<open>key\<close>, in
  place of any entry the key had and whether or not writing the file then fails, and
  leaves the entry of every other key as it was. The commit handler reads the ledger once,
  before it consumes the plan. When its non-empty key is present then, the call changes
  neither store and sends nothing. When the call returns the result of a commit under a
  non-empty key, the ledger holds under that key the entry of this call (its action, the
  time of the recording and the summary it returns), in place of whatever entry other
  calls stored under the key while this one awaited its requests.
\<close>

theorem ledger_entries_kept:
  "(k' \<noteq> k \<longrightarrow>
      ledger_get k' (snd (record_entry now writeFailure k act s l)) = ledger_get k' l) \<and>
   ledger_get k (snd (record_entry now writeFailure k act s l)) =
     Some \<lparr> entry_key = k, entry_action = act, entry_created_at = now, result_summary = s \<rparr> \<and>
   (ledger_get kr (idempotencyLedger str) = Some e \<longrightarrow> kr \<noteq> [] \<longrightarrow>
    psr ''idempotency_key'' = JStr kr \<longrightarrow>
      snd (commit_bulk_update isUuid config clock writeError put psr (wr, str)) = (wr, str, [])) \<and>
   (commit_bulk_update isUuid config clock writeError put ps (w, st) =
      (Inr (BulkResult b), w', st', calls) \<longrightarrow>
    ps ''idempotency_key'' = JStr kc \<longrightarrow> kc \<noteq> [] \<longrightarrow>
      ledger_get kc (idempotencyLedger st') =
        Some \<lparr> entry_key = kc, entry_action = ''catalog.commit_bulk_update'',
               entry_created_at = clock w', result_summary = message b \<rparr>)"
proof (intro conjI impI)
  assume "k' \<noteq> k"
  then show "ledger_get k' (snd (record_entry now writeFailure k act s l)) = ledger_get k' l"
    by (rule ledger_get_record_other)
next
  show "ledger_get k (snd (record_entry now writeFailure k act s l)) =
     Some \<lparr> entry_key = k, entry_action = act, entry_created_at = now, result_summary = s \<rparr>"
    by (rule ledger_get_record_same)
next
  assume hit: "ledger_get kr (idempotencyLedger str) = Some e" and ne: "kr \<noteq> []"
    and key: "psr ''idempotency_key'' = JStr kr"
  from commit_known_key [where ps = psr and isUuid = isUuid and config = config
      and clock = clock and writeError = writeError and put = put and w = wr,
      OF hit ne key]
  show "snd (commit_bulk_update isUuid config clock writeError put psr (wr, str)) = (wr, str, [])"
    by simp
next
  assume "commit_bulk_update isUuid config clock writeError put ps (w, st) =
      (Inr (BulkResult b), w', st', calls)"
    and "ps ''idempotency_key'' = JStr kc" and "kc \<noteq> []"
  then show "ledger_get kc (idempotencyLedger st') =
        Some \<lparr> entry_key = kc, entry_action = ''catalog.commit_bulk_update'',
               entry_created_at = clock w', result_summary = message b \<rparr>"
    by (rule commit_records_key [where ps = ps])
qed

theorem ledger_entries_kept_witness:
  "''k1'' \<noteq> ''k2'' \<and>
   ledger_get ''k1'' (snd (record_entry 9 (Some ''EACCES: permission denied'') ''k2''
       ''catalog.commit_bulk_update'' ''s'' (idempotencyLedger stores_committed))) =
     Some entry_example \<and>
   ledger_get ''k1'' (idempotencyLedger stores_committed) = Some entry_example \<and>
   ''k1'' \<noteq> [] \<and>
   params_example ''again'' ''k1'' ''idempotency_key'' = JStr ''k1'' \<and>
   snd (commit_bulk_update any_uuid defaultConfig (clock_at 5) write_ok put_racing
          (params_example ''again'' ''k1'') ((), stores_committed)) = ((), stores_committed, []) \<and>
   commit_bulk_update any_uuid defaultConfig (clock_at 5) write_ok put_racing
       (params_example ''approved by ops'' ''k1'') ((), stores_example) =
     (Inr (BulkResult \<lparr> message = ''Updated 2/2 products. 0 errors.'', success_count = 2,
                        error_count = 0, errors = None \<rparr>),
      (), stores_committed,
      [(putRequest (payload plan_example) ''A'', Inr ()),
       (putRequest (payload plan_example) ''B'', Inr ())]) \<and>
   params_example ''approved by ops'' ''k1'' ''idempotency_key'' = JStr ''k1'' \<and>
   ledger_get ''k1'' (idempotencyLedger stores_example) = None \<and>
   ledger_get ''k1''
     (idempotencyLedger (snd (snd (put_racing ((), stores_example \<lparr> planStore := [] \<rparr>)
        (putRequest (payload plan_example) ''A''))))) = Some entry_other \<and>
   entry_other \<noteq> entry_example \<and>
   ledger_get ''k1'' (idempotencyLedger stores_committed) =
     Some \<lparr> entry_key = ''k1'', entry_action = ''catalog.commit_bulk_update'',
            entry_created_at = 5, result_summary = ''Updated 2/2 products. 0 errors.'' \<rparr>"
proof -
  have ne: "''k1'' \<noteq> ''k2''" by simp
  have ne': "''k1'' \<noteq> []" by simp
  have hit: "ledger_get ''k1'' (idempotencyLedger stores_committed) = Some entry_example"
    by (simp add: ledger_get_def stores_committed_def)
  have before: "ledger_get ''k1'' (idempotencyLedger stores_example) = None"
    by (simp add: ledger_get_def stores_example_def empty_ledger_def)
  have flight: "ledger_get ''k1''
     (idempotencyLedger (snd (snd (put_racing ((), stores_example \<lparr> planStore := [] \<rparr>)
        (putRequest (payload plan_example) ''A''))))) = Some entry_other"
    by (simp add: put_racing_def ledger_get_record_same entry_other_def)
  have differ: "entry_other \<noteq> entry_example"
    by (simp add: entry_other_def entry_example_def)
  from ledger_entries_kept [where k' = "''k1''" and k = "''k2''" and now = 9
      and writeFailure = "Some ''EACCES: permission denied''"
      and act = "''catalog.commit_bulk_update''" and s = "''s''"
      and l = "idempotencyLedger stores_committed"
      and kr = "''k1''" and str = stores_committed and e = entry_example
      and psr = "params_example ''again'' ''k1''" and wr = "()"
      and isUuid = any_uuid and config = defaultConfig and clock = "clock_at 5"
      and writeError = write_ok and put = put_racing
      and ps = "params_example ''approved by ops'' ''k1''" and w = "()" and st = stores_example
      and b = "\<lparr> message = ''Updated 2/2 products. 0 errors.'', success_count = 2,
                 error_count = 0, errors = None \<rparr>"
      and w' = "()" and st' = stores_committed
      and calls = "[(putRequest (payload plan_example) ''A'', Inr ()),
                    (putRequest (payload plan_example) ''B'', Inr ())]"
      and kc = "''k1''"]
    ne ne' hit before flight differ example_commit_racing example_key
  show ?thesis by (simp add: clock_at_def)
qed

section \<open>The bulk commit\<close>

text \<open>
  Claim C8, as stated, fails: a consumed plan does not ensure that the records are attempted
  nor that the call is reported successful. The plan store is shared by all actions and
  the handler does not read the action of the plan it consumes: given the id of a plan
  that the CMS action prepared, whose payload has no \<open>skus\<close>, the handler consumes the
  plan and throws, with no request made. And when the records of a catalog plan have all
  been attempted and writing the ledger file fails, the call throws what the write threw
  and reports no counts.
\<close>

theorem consumed_plan_commit_throws_counterexample:
  "consume 5 ''p1'' [(''p1'', cms_plan_example)] = (Some cms_plan_example, []) \<and>
   commit_bulk_update any_uuid defaultConfig (clock_at 5) write_ok put_ok
       (params_example ''approved by ops'' ''k1'')
       ((), \<lparr> planStore = [(''p1'', cms_plan_example)], idempotencyLedger = empty_ledger \<rparr>) =
     (Inl (Error ''payload.skus is not iterable''), (),
      \<lparr> planStore = [], idempotencyLedger = empty_ledger \<rparr>, []) \<and>
   consume 5 ''p1'' (planStore stores_example) = (Some plan_example, []) \<and>
   commit_bulk_update any_uuid defaultConfig (clock_at 5) write_fails put_ok
       (params_example ''approved by ops'' ''k1'') ((), stores_example) =
     (Inl (Error ''ENOSPC: no space left on device, write''),
      (),
      \<lparr> planStore = [],
        idempotencyLedger = \<lparr> entries = [(''k1'', entry_example)], persisted = [] \<rparr> \<rparr>,
      [(putRequest (payload plan_example) ''A'', Inr ()),
       (putRequest (payload plan_example) ''B'', Inr ())])"
  using example_consume_cms example_commit_cms example_consume example_commit_write_fails
  by (simp add: stores_example_def)

text \<open>
  Claim C8, amended. Let the handler have consumed a plan whose payload has a list \<open>skus\<close>.
  Then it sends one request per record, in the order of the list, each when the one before
  has been answered and whatever that answer was: the \<open>i\<close>-th request is a \<open>PUT\<close> to
  \<open>/V1/products/\<close> followed by the encoded \<open>i\<close>-th record, with the product made of that
  record as \<open>sku\<close> and of the updates of the payload, under the store view code of the
  payload's scope; it is sent in the state that the request before handed back, the first
  in the state in which the plan was consumed. The number of requests answered well and
  the number answered badly add up to the number of records. When no idempotency key other
  than the empty string was given, or writing the ledger file succeeds, the call returns
  (it does not throw) a result with these two numbers as \<open>success_count\<close> and
  \<open>error_count\<close>, the summary made of them as \<open>message\<close>, and as \<open>errors\<close> the failed records
  in order with the messages of their failures when there is one, nothing otherwise. When
  a non-empty key was given and writing the ledger file fails, the call throws what the
  write threw, after all requests.
\<close>

theorem bulk_commit_in_order:
  assumes parse: "CommitPlanSchema_parse isUuid ps = Inr v"
      and gate: "requireConfirmation config Risk ps = Inr ()"
      and fresh: "lookupExisting v (idempotencyLedger st) = None"
      and consumed: "consume (clock w) (v_plan_id v) (planStore st) = (Some plan, plans')"
      and records: "skus (payload plan) = Some xs"
  shows "\<exists>sts calls r w' st'.
           commit_bulk_update isUuid config clock writeError put ps (w, st) = (r, w', st', calls) \<and>
           length calls = length xs \<and> length sts = Suc (length xs) \<and>
           sts ! 0 = (w, st \<lparr> planStore := plans' \<rparr>) \<and>
           (\<forall>i < length xs.
              fst (calls ! i) =
                \<lparr> endpoint = ''/V1/products/'' @ encodeURIComponent (xs ! i),
                  product = fold (\<lambda>(k, x) m. AList.update k x m)
                              (case updates (payload plan) of None \<Rightarrow> [] | Some u \<Rightarrow> u)
                              [(''sku'', JStr (xs ! i))],
                  storeCode = (case scope (payload plan) of
                                 None \<Rightarrow> None
                               | Some sc \<Rightarrow> map_of sc ''store_view_code'') \<rparr> \<and>
              put (sts ! i) (fst (calls ! i)) = (snd (calls ! i), sts ! Suc i)) \<and>
           fst (sts ! length xs) = w' \<and>
           planStore st' = planStore (snd (sts ! length xs)) \<and>
           (let n = length (filter (\<lambda>c. \<not> isl (snd c)) calls);
                errs = map (\<lambda>(sku, c). (sku, projl (snd c)))
                         (filter (\<lambda>(sku, c). isl (snd c)) (zip xs calls));
                b = \<lparr> message = summaryOf n (length xs) (length errs),
                      success_count = n,
                      error_count = length errs,
                      errors = (if errs = [] then None else Some errs) \<rparr>
            in length errs = length (filter (\<lambda>c. isl (snd c)) calls) \<and>
               n + length errs = length xs \<and>
               r = (case v_idempotency_key v of
                      None \<Rightarrow> Inr (BulkResult b)
                    | Some k \<Rightarrow>
                        if k = [] then Inr (BulkResult b)
                        else (case writeError w' of
                                None \<Rightarrow> Inr (BulkResult b)
                              | Some msg \<Rightarrow> Inl (Error msg))))"
proof -
  let ?pl = "payload plan"
  obtain w2 st2 n errs cs where
    lp: "commit_loop put ?pl xs ((w, st \<lparr> planStore := plans' \<rparr>), 0, [], []) =
           ((w2, st2), n, errs, cs)"
    by (cases "commit_loop put ?pl xs ((w, st \<lparr> planStore := plans' \<rparr>), 0, [], [])") auto
  from commit_loop_trace [OF lp] obtain new sts where
    cs: "cs = new" and ln: "length new = length xs" and
    ls: "length sts = Suc (length xs)" and s0: "sts ! 0 = (w, st \<lparr> planStore := plans' \<rparr>)" and
    sl: "sts ! length xs = (w2, st2)" and
    step: "\<forall>i < length xs. fst (new ! i) = putRequest ?pl (xs ! i) \<and>
             put (sts ! i) (putRequest ?pl (xs ! i)) = (snd (new ! i), sts ! Suc i)" and
    n: "n = length (filter (\<lambda>c. \<not> isl (snd c)) new)" and
    errs: "errs = failures xs new"
    by auto
  from length_failures [OF ln] errs have
    le: "length errs = length (filter (\<lambda>c. isl (snd c)) new)" by simp
  have "length (filter (\<lambda>c. \<not> isl (snd c)) new) + length (filter (\<lambda>c. isl (snd c)) new) =
          length new"
    using sum_length_filter_compl [of "\<lambda>c. isl (snd c)" new] by simp
  with n le ln have sum: "n + length errs = length xs" by simp
  let ?s = "summaryOf n (length xs) (length errs)"
  let ?b = "\<lparr> message = ?s, success_count = n, error_count = length errs,
              errors = (if errs = [] then None else Some errs) \<rparr>"
  obtain outcome l2 where
    rs: "recordSummary (clock w2) (writeError w2) v ?s (idempotencyLedger st2) = (outcome, l2)"
    by (cases "recordSummary (clock w2) (writeError w2) v ?s (idempotencyLedger st2)")
  let ?r = "(case outcome of Inl e \<Rightarrow> Inl e | Inr u \<Rightarrow> Inr (BulkResult ?b))"
  from commit_run [where clock = clock and w = w and writeError = writeError,
      OF parse gate fresh consumed records lp rs]
  have run: "commit_bulk_update isUuid config clock writeError put ps (w, st) =
               (?r, w2, st2 \<lparr> idempotencyLedger := l2 \<rparr>, new)"
    using cs by (cases outcome) simp_all
  have out: "outcome =
               (case v_idempotency_key v of
                  None \<Rightarrow> Inr ()
                | Some k \<Rightarrow>
                    if k = [] then Inr ()
                    else (case writeError w2 of None \<Rightarrow> Inr () | Some msg \<Rightarrow> Inl (Error msg)))"
  proof -
    from rs have "outcome =
        fst (recordSummary (clock w2) (writeError w2) v ?s (idempotencyLedger st2))"
      by simp
    then show ?thesis
      by (simp add: recordSummary_def record_entry_outcome split: option.splits)
  qed
  have res: "?r = (case v_idempotency_key v of
                      None \<Rightarrow> Inr (BulkResult ?b)
                    | Some k \<Rightarrow>
                        if k = [] then Inr (BulkResult ?b)
                        else (case writeError w2 of
                                None \<Rightarrow> Inr (BulkResult ?b)
                              | Some msg \<Rightarrow> Inl (Error msg)))"
    by (subst out) (simp split: option.splits)
  have req: "\<forall>i < length xs.
              fst (new ! i) =
                \<lparr> endpoint = ''/V1/products/'' @ encodeURIComponent (xs ! i),
                  product = fold (\<lambda>(k, x) m. AList.update k x m)
                              (case updates ?pl of None \<Rightarrow> [] | Some u \<Rightarrow> u)
                              [(''sku'', JStr (xs ! i))],
                  storeCode = (case scope ?pl of
                                 None \<Rightarrow> None
                               | Some sc \<Rightarrow> map_of sc ''store_view_code'') \<rparr> \<and>
              put (sts ! i) (fst (new ! i)) = (snd (new ! i), sts ! Suc i)"
    using step by (simp add: putRequest_def productBody_def)
  have fin: "fst (sts ! length xs) = w2"
    "planStore (st2 \<lparr> idempotencyLedger := l2 \<rparr>) = planStore (snd (sts ! length xs))"
    using sl by simp_all
  have e2: "map (\<lambda>(sku, c). (sku, projl (snd c)))
              (filter (\<lambda>(sku, c). isl (snd c)) (zip xs new)) = errs"
    using errs by (simp add: failures_def)
  have n2: "length (filter (\<lambda>c. \<not> isl (snd c)) new) = n"
    using n by simp
  have body: "(let n' = length (filter (\<lambda>c. \<not> isl (snd c)) new);
                errs' = map (\<lambda>(sku, c). (sku, projl (snd c)))
                         (filter (\<lambda>(sku, c). isl (snd c)) (zip xs new));
                b = \<lparr> message = summaryOf n' (length xs) (length errs'),
                      success_count = n',
                      error_count = length errs',
                      errors = (if errs' = [] then None else Some errs') \<rparr>
            in length errs' = length (filter (\<lambda>c. isl (snd c)) new) \<and>
               n' + length errs' = length xs \<and>
               ?r = (case v_idempotency_key v of
                      None \<Rightarrow> Inr (BulkResult b)
                    | Some k \<Rightarrow>
                        if k = [] then Inr (BulkResult b)
                        else (case writeError w2 of
                                None \<Rightarrow> Inr (BulkResult b)
                              | Some msg \<Rightarrow> Inl (Error msg))))"
    unfolding Let_def e2 n2
    using res le sum by simp
  from run ln ls s0 req fin body show ?thesis by blast
qed

theorem bulk_commit_in_order_witness:
  "CommitPlanSchema_parse any_uuid (params_example ''approved by ops'' ''k1'') =
     Inr \<lparr> v_plan_id = ''p1'', v_reason = ''approved by ops'', v_idempotency_key = Some ''k1'' \<rparr> \<and>
   requireConfirmation defaultConfig Risk (params_example ''approved by ops'' ''k1'') = Inr () \<and>
   lookupExisting \<lparr> v_plan_id = ''p1'', v_reason = ''approved by ops'',
      v_idempotency_key = Some ''k1'' \<rparr> (idempotencyLedger stores_example) = None \<and>
   consume 5 ''p1'' (planStore stores_example) = (Some plan_example, []) \<and>
   skus (payload plan_example) = Some [''A'', ''B''] \<and>
   (\<exists>sts calls r w' st'.
      commit_bulk_update any_uuid defaultConfig (clock_at 5) write_ok put_first_only
          (params_example ''approved by ops'' ''k1'') (0, stores_example) = (r, w', st', calls) \<and>
      length calls = 2 \<and> length sts = 3 \<and>
      sts ! 0 = (0, stores_example \<lparr> planStore := [] \<rparr>) \<and>
      fst (calls ! 0) =
        \<lparr> endpoint = ''/V1/products/A'',
          product = [(''sku'', JStr ''A''), (''name'', JStr ''x'')], storeCode = None \<rparr> \<and>
      put_first_only (sts ! 0) (fst (calls ! 0)) = (snd (calls ! 0), sts ! 1) \<and>
      fst (calls ! 1) =
        \<lparr> endpoint = ''/V1/products/B'',
          product = [(''sku'', JStr ''B''), (''name'', JStr ''x'')], storeCode = None \<rparr> \<and>
      put_first_only (sts ! 1) (fst (calls ! 1)) = (snd (calls ! 1), sts ! 2) \<and>
      fst (sts ! 2) = w' \<and>
      r = Inr (BulkResult
                 \<lparr> message = ''Updated 1/2 products. 1 errors.'', success_count = 1,
                   error_count = 1,
                   errors = Some [(''B'', ''Magento API Error (404): no such product'')] \<rparr>))"
proof -
  let ?v = "\<lparr> v_plan_id = ''p1'', v_reason = ''approved by ops'',
              v_idempotency_key = Some ''k1'' \<rparr>"
  have l: "lookupExisting ?v (idempotencyLedger stores_example) = None"
    using example_lookup by (simp add: stores_example_def)
  have c: "consume (clock_at 5 (0::nat)) (v_plan_id ?v) (planStore stores_example) =
             (Some plan_example, [])"
    using example_consume by (simp add: stores_example_def clock_at_def)
  from bulk_commit_in_order [where clock = "clock_at 5" and w = "0::nat"
      and put = put_first_only and writeError = write_ok,
      OF approved_parse approved_gate l c example_skus]
  obtain sts calls r w' st' where
    run: "commit_bulk_update any_uuid defaultConfig (clock_at 5) write_ok put_first_only
            (params_example ''approved by ops'' ''k1'') (0, stores_example) = (r, w', st', calls)"
    and lc: "length calls = length [''A'', ''B'']"
    and ls: "length sts = Suc (length [''A'', ''B''])"
    and s0: "sts ! 0 = (0, stores_example \<lparr> planStore := [] \<rparr>)"
    and step: "\<forall>i < length [''A'', ''B''].
              fst (calls ! i) =
                \<lparr> endpoint = ''/V1/products/'' @ encodeURIComponent ([''A'', ''B''] ! i),
                  product = fold (\<lambda>(k, x) m. AList.update k x m)
                              (case updates (payload plan_example) of None \<Rightarrow> [] | Some u \<Rightarrow> u)
                              [(''sku'', JStr ([''A'', ''B''] ! i))],
                  storeCode = (case scope (payload plan_example) of
                                 None \<Rightarrow> None
                               | Some sc \<Rightarrow> map_of sc ''store_view_code'') \<rparr> \<and>
              put_first_only (sts ! i) (fst (calls ! i)) = (snd (calls ! i), sts ! Suc i)"
    and fin: "fst (sts ! length [''A'', ''B'']) = w'"
    by blast
  from run example_commit_partial have
    r: "r = Inr (BulkResult
                 \<lparr> message = ''Updated 1/2 products. 1 errors.'', success_count = 1,
                   error_count = 1,
                   errors = Some [(''B'', ''Magento API Error (404): no such product'')] \<rparr>)"
    by simp
  from spec [OF step, of 0] have s1: "fst (calls ! 0) =
        \<lparr> endpoint = ''/V1/products/A'',
          product = [(''sku'', JStr ''A''), (''name'', JStr ''x'')], storeCode = None \<rparr> \<and>
      put_first_only (sts ! 0) (fst (calls ! 0)) = (snd (calls ! 0), sts ! 1)"
    by (auto simp: plan_example_def encodeURIComponent_def uriUnescaped_def)
  from spec [OF step, of "Suc 0"] have s2: "fst (calls ! 1) =
        \<lparr> endpoint = ''/V1/products/B'',
          product = [(''sku'', JStr ''B''), (''name'', JStr ''x'')], storeCode = None \<rparr> \<and>
      put_first_only (sts ! 1) (fst (calls ! 1)) = (snd (calls ! 1), sts ! 2)"
    by (auto simp: plan_example_def encodeURIComponent_def uriUnescaped_def numeral_2_eq_2)
  from lc ls fin have "length calls = 2" "length sts = 3" "fst (sts ! 2) = w'"
    by (simp_all add: numeral_2_eq_2 numeral_3_eq_3)
  with run s0 s1 s2 r have
    "\<exists>sts calls r w' st'.
      commit_bulk_update any_uuid defaultConfig (clock_at 5) write_ok put_first_only
          (params_example ''approved by ops'' ''k1'') (0, stores_example) = (r, w', st', calls) \<and>
      length calls = 2 \<and> length sts = 3 \<and>
      sts ! 0 = (0, stores_example \<lparr> planStore := [] \<rparr>) \<and>
      fst (calls ! 0) =
        \<lparr> endpoint = ''/V1/products/A'',
          product = [(''sku'', JStr ''A''), (''name'', JStr ''x'')], storeCode = None \<rparr> \<and>
      put_first_only (sts ! 0) (fst (calls ! 0)) = (snd (calls ! 0), sts ! 1) \<and>
      fst (calls ! 1) =
        \<lparr> endpoint = ''/V1/products/B'',
          product = [(''sku'', JStr ''B''), (''name'', JStr ''x'')], storeCode = None \<rparr> \<and>
      put_first_only (sts ! 1) (fst (calls ! 1)) = (snd (calls ! 1), sts ! 2) \<and>
      fst (sts ! 2) = w' \<and>
      r = Inr (BulkResult
                 \<lparr> message = ''Updated 1/2 products. 1 errors.'', success_count = 1,
                   error_count = 1,
                   errors = Some [(''B'', ''Magento API Error (404): no such product'')] \<rparr>)"
    by blast
  with approved_parse approved_gate l c example_skus show ?thesis
    by (simp add: clock_at_def)
qed

section \<open>Guardrails\<close>

lemma trim_Nil: "trim [] = []"
  by (simp add: trim_def)

lemma confirm_differs_from_reason: "confirmMessage t \<noteq> reasonMessage"
  by (simp add: confirmMessage_def reasonMessage_def)

text \<open>
  Claim C4, as stated, fails: the gate is behind the configuration switch. With
  \<open>tier2ConfirmationRequired\<close> off, a Risk-tier call without \<open>confirm\<close> and without
  \<open>reason\<close> passes.
\<close>

theorem gate_switched_off_counterexample:
  "tierValue Risk \<ge> tierValue Risk \<and>
   no_params ''confirm'' \<noteq> JBool True \<and>
   requireConfirmation config_unconfirmed Risk no_params = Inr ()"
  by (simp add: requireConfirmation_def config_unconfirmed_def defaultConfig_def no_params_def)

text \<open>
  Claim C4, amended. With \<open>tier2ConfirmationRequired\<close> on, and for a tier at or above
  Risk, \<open>requireConfirmation\<close> passes exactly when \<open>confirm\<close> is the boolean \<open>true\<close> and
  \<open>reason\<close> is a string that is not empty once trimmed. Both failures are a
  \<open>GuardrailError\<close> with the code \<open>CONFIRMATION_REQUIRED\<close> and no details; they differ in
  the message, which asks for \<open>confirm: true\<close> and a reason in the first case and for a
  non-empty reason in the second.
\<close>

theorem confirmation_gate:
  assumes on: "tier2ConfirmationRequired config"
      and tier: "tierValue t \<ge> tierValue Risk"
  shows "(requireConfirmation config t ps = Inr () \<longleftrightarrow>
            ps ''confirm'' = JBool True \<and> (\<exists>r. ps ''reason'' = JStr r \<and> trim r \<noteq> [])) \<and>
         (ps ''confirm'' \<noteq> JBool True \<longrightarrow>
            requireConfirmation config t ps =
              Inl (GuardrailError CONFIRMATION_REQUIRED (confirmMessage t) None)) \<and>
         (ps ''confirm'' = JBool True \<longrightarrow> \<not> (\<exists>r. ps ''reason'' = JStr r \<and> trim r \<noteq> []) \<longrightarrow>
            requireConfirmation config t ps =
              Inl (GuardrailError CONFIRMATION_REQUIRED reasonMessage None)) \<and>
         confirmMessage t \<noteq> reasonMessage"
proof (cases "ps ''confirm'' = JBool True")
  case False
  with on tier show ?thesis
    by (simp add: requireConfirmation_def confirm_differs_from_reason)
next
  case True
  show ?thesis
  proof (cases "ps ''reason''")
    case (JStr r)
    show ?thesis
    proof (cases "trim r = []")
      case True
      with JStr \<open>ps ''confirm'' = JBool True\<close> on tier show ?thesis
        by (simp add: requireConfirmation_def confirm_differs_from_reason)
    next
      case False
      then have "r \<noteq> []" using trim_Nil by auto
      with False JStr \<open>ps ''confirm'' = JBool True\<close> on tier show ?thesis
        by (simp add: requireConfirmation_def confirm_differs_from_reason)
    qed
  qed (use True on tier in \<open>simp_all add: requireConfirmation_def confirm_differs_from_reason\<close>)
qed

theorem confirmation_gate_witness:
  "tier2ConfirmationRequired defaultConfig \<and> tierValue Risk \<ge> tierValue Risk \<and>
   params_example ''approved by ops'' ''k1'' ''confirm'' = JBool True \<and>
   params_example ''approved by ops'' ''k1'' ''reason'' = JStr ''approved by ops'' \<and>
   trim ''approved by ops'' \<noteq> [] \<and>
   requireConfirmation defaultConfig Risk (params_example ''approved by ops'' ''k1'') = Inr () \<and>
   params_example [] ''k1'' ''confirm'' = JBool True \<and>
   params_example [] ''k1'' ''reason'' = JStr [] \<and>
   requireConfirmation defaultConfig Risk (params_example [] ''k1'') =
     Inl (GuardrailError CONFIRMATION_REQUIRED reasonMessage None) \<and>
   no_params ''confirm'' \<noteq> JBool True \<and>
   requireConfirmation defaultConfig Critical no_params =
     Inl (GuardrailError CONFIRMATION_REQUIRED (confirmMessage Critical) None)"
proof -
  have on: "tier2ConfirmationRequired defaultConfig" by (simp add: defaultConfig_def)
  have r: "tierValue Risk \<ge> tierValue Risk" by simp
  have c: "tierValue Critical \<ge> tierValue Risk" by simp
  have t: "trim ''approved by ops'' \<noteq> []" by (simp add: trim_def isWhiteSpace_def)
  have p: "params_example ''approved by ops'' ''k1'' ''confirm'' = JBool True"
    "params_example ''approved by ops'' ''k1'' ''reason'' = JStr ''approved by ops''"
    "params_example [] ''k1'' ''confirm'' = JBool True"
    "params_example [] ''k1'' ''reason'' = JStr []"
    "no_params ''confirm'' \<noteq> JBool True"
    by (simp_all add: params_example_def no_params_def)
  from confirmation_gate [OF on r, where ps = "params_example ''approved by ops'' ''k1''"]
    confirmation_gate [OF on r, where ps = "params_example [] ''k1''"]
    confirmation_gate [OF on c, where ps = no_params]
    on t p trim_Nil
  show ?thesis by simp
qed

text \<open>
  Claim C10. With \<open>tier2ConfirmationRequired\<close> off, \<open>requireConfirmation\<close> returns without a
  failure for every tier and every parameters, with or without \<open>confirm\<close> and \<open>reason\<close>.
\<close>

theorem gate_disabled_by_configuration:
  "\<not> tier2ConfirmationRequired config \<Longrightarrow> requireConfirmation config t ps = Inr ()"
  by (simp add: requireConfirmation_def)

theorem gate_disabled_by_configuration_witness:
  "\<not> tier2ConfirmationRequired config_unconfirmed \<and>
   no_params ''confirm'' = JUndefined \<and> no_params ''reason'' = JUndefined \<and>
   requireConfirmation config_unconfirmed Critical no_params = Inr ()"
proof -
  have off: "\<not> tier2ConfirmationRequired config_unconfirmed"
    by (simp add: config_unconfirmed_def)
  from gate_disabled_by_configuration [OF off, of Critical no_params] off
  show ?thesis by (simp add: no_params_def)
qed

subsection \<open>The price check\<close>










section \<open>Request signing\<close>

lemma example_paramString:
  "paramString (allParams creds_example ''ab05'' ''1700000000'' (Some query_example)) =
     ''oauth_consumer_key=ck&oauth_nonce=ab05&oauth_signature_method=HMAC-SHA256&oauth_timestamp=1700000000&oauth_token=tk&oauth_version=1.0&searchCriteria%5BfilterGroups%5D%5B10%5D%5Bfilters%5D%5B0%5D%5Bfield%5D=name&searchCriteria%5BfilterGroups%5D%5B1%5D%5Bfilters%5D%5B0%5D%5Bfield%5D=sku''"
  by code_simp

lemma example_paramString_spec:
  "paramString_spec (allParams creds_example ''ab05'' ''1700000000'' (Some query_example)) =
     ''oauth_consumer_key=ck&oauth_nonce=ab05&oauth_signature_method=HMAC-SHA256&oauth_timestamp=1700000000&oauth_token=tk&oauth_version=1.0&searchCriteria%5BfilterGroups%5D%5B1%5D%5Bfilters%5D%5B0%5D%5Bfield%5D=sku&searchCriteria%5BfilterGroups%5D%5B10%5D%5Bfilters%5D%5B0%5D%5Bfield%5D=name''"
  by code_simp

lemma example_nonce: "nonceOf [171, 5] = ''ab05''"
  by (simp add: nonceOf_def hexDigit_def)

lemma example_timestamp: "timestampOf 1700000000123 = ''1700000000''"
  by (simp add: timestampOf_def intToString_def natToString.simps digitChar_def)

text \<open>
  Claim C3 does not hold of the source: the keys are sorted before they are encoded. For
  a search with filter groups 1 and 10 the source puts group 10 first (\<open>0\<close> is below
  \<open>]\<close>), while sorting by encoded key puts group 1 first (\<open>%\<close> is below \<open>0\<close>).
\<close>

theorem param_string_sorted_before_encoding:
  "paramString (allParams creds_example ''ab05'' ''1700000000'' (Some query_example)) =
     ''oauth_consumer_key=ck&oauth_nonce=ab05&oauth_signature_method=HMAC-SHA256&oauth_timestamp=1700000000&oauth_token=tk&oauth_version=1.0&searchCriteria%5BfilterGroups%5D%5B10%5D%5Bfilters%5D%5B0%5D%5Bfield%5D=name&searchCriteria%5BfilterGroups%5D%5B1%5D%5Bfilters%5D%5B0%5D%5Bfield%5D=sku'' \<and>
   paramString_spec (allParams creds_example ''ab05'' ''1700000000'' (Some query_example)) =
     ''oauth_consumer_key=ck&oauth_nonce=ab05&oauth_signature_method=HMAC-SHA256&oauth_timestamp=1700000000&oauth_token=tk&oauth_version=1.0&searchCriteria%5BfilterGroups%5D%5B1%5D%5Bfilters%5D%5B0%5D%5Bfield%5D=sku&searchCriteria%5BfilterGroups%5D%5B10%5D%5Bfilters%5D%5B0%5D%5Bfield%5D=name'' \<and>
   paramString (allParams creds_example ''ab05'' ''1700000000'' (Some query_example)) \<noteq>
     paramString_spec (allParams creds_example ''ab05'' ''1700000000'' (Some query_example))"
  unfolding example_paramString example_paramString_spec by simp

lemma example_signingKey: "signingKey creds_example = ''cs&ts''"
  by (simp add: signingKey_def creds_example_def rfc3986Encode_def encodeURIComponent_def
      uriUnescaped_def)

lemma example_baseString:
  "baseStringFor creds_example ''ab05'' ''1700000000'' GET ''https://shop.example/rest/V1/products''
     (Some query_example) =
     ''GET&https%3A%2F%2Fshop.example%2Frest%2FV1%2Fproducts&oauth_consumer_key%3Dck%26oauth_nonce%3Dab05%26oauth_signature_method%3DHMAC-SHA256%26oauth_timestamp%3D1700000000%26oauth_token%3Dtk%26oauth_version%3D1.0%26searchCriteria%255BfilterGroups%255D%255B10%255D%255Bfilters%255D%255B0%255D%255Bfield%255D%3Dname%26searchCriteria%255BfilterGroups%255D%255B1%255D%255Bfilters%255D%255B0%255D%255Bfield%255D%3Dsku''"
  by code_simp

lemma example_baseString_spec:
  "baseString_spec creds_example ''ab05'' ''1700000000'' GET ''https://shop.example/rest/V1/products''
     query_example =
     ''GET&https%3A%2F%2Fshop.example%2Frest%2FV1%2Fproducts&oauth_consumer_key%3Dck%26oauth_nonce%3Dab05%26oauth_signature_method%3DHMAC-SHA256%26oauth_timestamp%3D1700000000%26oauth_token%3Dtk%26oauth_version%3D1.0%26searchCriteria%255BfilterGroups%255D%255B1%255D%255Bfilters%255D%255B0%255D%255Bfield%255D%3Dsku%26searchCriteria%255BfilterGroups%255D%255B10%255D%255Bfilters%255D%255B0%255D%255Bfield%255D%3Dname''"
  by code_simp

text \<open>
  Claim C7 does not hold of the source, for the reason of C3: the signature that the
  header carries is the HMAC of a base string whose parameters were sorted before they
  were encoded. For the search with filter groups 1 and 10, the header carries the nonce
  \<open>ab05\<close>, the timestamp \<open>1700000000\<close> and, whatever function \<open>hmac\<close> stands for the
  HMAC, the HMAC under the key \<open>cs&ts\<close> of a string that names group 10 before group 1;
  the base string derived again from that nonce and timestamp, parameters encoded and
  then sorted, names group 1 first, so the HMAC is computed again over another string.
\<close>

theorem signature_over_unsorted_base_string:
  "map_of (authParams hmac creds_example [171, 5] 1700000000123 GET
             ''https://shop.example/rest/V1/products'' (Some query_example)) ''oauth_nonce'' =
     Some ''ab05'' \<and>
   map_of (authParams hmac creds_example [171, 5] 1700000000123 GET
             ''https://shop.example/rest/V1/products'' (Some query_example)) ''oauth_timestamp'' =
     Some ''1700000000'' \<and>
   map_of (authParams hmac creds_example [171, 5] 1700000000123 GET
             ''https://shop.example/rest/V1/products'' (Some query_example)) ''oauth_signature'' =
     Some (hmac ''cs&ts''
             ''GET&https%3A%2F%2Fshop.example%2Frest%2FV1%2Fproducts&oauth_consumer_key%3Dck%26oauth_nonce%3Dab05%26oauth_signature_method%3DHMAC-SHA256%26oauth_timestamp%3D1700000000%26oauth_token%3Dtk%26oauth_version%3D1.0%26searchCriteria%255BfilterGroups%255D%255B10%255D%255Bfilters%255D%255B0%255D%255Bfield%255D%3Dname%26searchCriteria%255BfilterGroups%255D%255B1%255D%255Bfilters%255D%255B0%255D%255Bfield%255D%3Dsku'') \<and>
   baseString_spec creds_example ''ab05'' ''1700000000'' GET ''https://shop.example/rest/V1/products''
       query_example =
     ''GET&https%3A%2F%2Fshop.example%2Frest%2FV1%2Fproducts&oauth_consumer_key%3Dck%26oauth_nonce%3Dab05%26oauth_signature_method%3DHMAC-SHA256%26oauth_timestamp%3D1700000000%26oauth_token%3Dtk%26oauth_version%3D1.0%26searchCriteria%255BfilterGroups%255D%255B1%255D%255Bfilters%255D%255B0%255D%255Bfield%255D%3Dsku%26searchCriteria%255BfilterGroups%255D%255B10%255D%255Bfilters%255D%255B0%255D%255Bfield%255D%3Dname'' \<and>
   baseStringFor creds_example ''ab05'' ''1700000000'' GET ''https://shop.example/rest/V1/products''
       (Some query_example) \<noteq>
     baseString_spec creds_example ''ab05'' ''1700000000'' GET ''https://shop.example/rest/V1/products''
       query_example"
proof -
  have "map_of (authParams hmac creds_example [171, 5] 1700000000123 GET
             ''https://shop.example/rest/V1/products'' (Some query_example)) ''oauth_signature'' =
     Some (hmac (signingKey creds_example)
             (baseStringFor creds_example (nonceOf [171, 5]) (timestampOf 1700000000123) GET
                ''https://shop.example/rest/V1/products'' (Some query_example)))"
    by (simp add: authParams_def oauthParams_def Let_def)
  moreover have "map_of (authParams hmac creds_example [171, 5] 1700000000123 GET
             ''https://shop.example/rest/V1/products'' (Some query_example)) ''oauth_nonce'' =
     Some (nonceOf [171, 5])"
    by (simp add: authParams_def oauthParams_def Let_def)
  moreover have "map_of (authParams hmac creds_example [171, 5] 1700000000123 GET
             ''https://shop.example/rest/V1/products'' (Some query_example)) ''oauth_timestamp'' =
     Some (timestampOf 1700000000123)"
    by (simp add: authParams_def oauthParams_def Let_def)
  ultimately show ?thesis
    unfolding example_nonce example_timestamp example_signingKey example_baseString
      example_baseString_spec
    by simp
qed

end
